theory Spec2Isabelle
  imports Complex_Main
begin

chapter \<open>Definitions: the attention-flow analysis engine\<close>

text \<open>
  Conventions of the embedding. JavaScript numbers that hold similarity scores and
  averages are modelled as \<^typ>\<open>real\<close> (exact arithmetic, no rounding, no NaN); counts
  and array indices as \<^typ>\<open>nat\<close>; timestamps and time differences in milliseconds as
  \<^typ>\<open>int\<close>. Strings are \<^typ>\<open>string\<close>, one \<^typ>\<open>char\<close> per code unit.
\<close>

section \<open>Transition kinds, thresholds and the calibrator (semantic worker)\<close>

datatype transitionType = related | topic_shift | context_switch

text \<open>\<^verbatim>\<open>SEMANTIC_CONFIG.calibration\<close>: \<^verbatim>\<open>{ window, adjustEvery, targetTopFraction }\<close>.\<close>

record calibration =
  window :: nat
  adjustEvery :: nat
  targetTopFraction :: real

text \<open>
  The mutable state of the worker: the module variable \<^verbatim>\<open>similaritySamples\<close>, the two
  fields of \<^verbatim>\<open>SEMANTIC_CONFIG.thresholds\<close>, and the sequence of threshold pairs handed to
  \<^verbatim>\<open>saveThresholds\<close> so far.
\<close>

record worker =
  similaritySamples :: "real list"
  thr_related :: real
  thr_topicShift :: real
  saved :: "(real \<times> real) list"

text \<open>The values of \<^verbatim>\<open>semanticConfig.js\<close>.\<close>

definition SEMANTIC_CONFIG_calibration :: calibration where
  "SEMANTIC_CONFIG_calibration =
     \<lparr>window = 500, adjustEvery = 100, targetTopFraction = 33 / 100\<rparr>"

definition worker_init :: worker where
  "worker_init =
     \<lparr>similaritySamples = [], thr_related = 50 / 100, thr_topicShift = 25 / 100, saved = []\<rparr>"

text \<open>\<^verbatim>\<open>arr.slice(-n)\<close>: the last \<open>n\<close> elements; \<^verbatim>\<open>slice(-0)\<close> is \<^verbatim>\<open>slice(0)\<close>, the whole array.\<close>

definition slice_last :: "nat \<Rightarrow> 'a list \<Rightarrow> 'a list" where
  "slice_last n xs = (if n = 0 then xs else drop (length xs - n) xs)"

text \<open>
  \<^verbatim>\<open>sorted[idx] || fallback\<close>: an index outside the array reads \<^verbatim>\<open>undefined\<close>, and both
  \<^verbatim>\<open>undefined\<close> and \<^verbatim>\<open>0\<close> are falsy.
\<close>

definition index_or :: "real list \<Rightarrow> int \<Rightarrow> real \<Rightarrow> real" where
  "index_or xs i d =
     (if 0 \<le> i \<and> i < int (length xs) \<and> xs ! nat i \<noteq> 0 then xs ! nat i else d)"

text \<open>
  The index \<^verbatim>\<open>Math.floor((1 - cfg.targetTopFraction) * sorted.length)\<close>, in exact
  arithmetic. (IEEE doubles round the product: for the default fraction 0.33 and 500
  samples JavaScript obtains 334 where the exact value is 335. No statement below
  depends on which of the two positions is read.)
\<close>

definition percentileIndex :: "calibration \<Rightarrow> nat \<Rightarrow> int" where
  "percentileIndex cfg n = \<lfloor>(1 - targetTopFraction cfg) * real n\<rfloor>"

definition calibrateIfNeeded :: "calibration \<Rightarrow> worker \<Rightarrow> worker" where
  "calibrateIfNeeded cfg s =
     (if length (similaritySamples s) < window cfg then s
      else
        let samples = slice_last (window cfg) (similaritySamples s);
            sorted = sort samples;
            idx = percentileIndex cfg (length sorted);
            newRelated = index_or sorted idx (thr_related s);
            before = thr_related s;
            after = max (thr_topicShift s + 1 / 100) (min (95 / 100) newRelated)
        in s\<lparr>similaritySamples := samples,
             thr_related := after,
             saved := (if \<bar>before - after\<bar> > 5 / 1000
                       then saved s @ [(after, thr_topicShift s)] else saved s)\<rparr>)"

text \<open>\<^verbatim>\<open>n % 0\<close> is NaN in JavaScript, never \<^verbatim>\<open>=== 0\<close>.\<close>

definition noteSimilarity :: "calibration \<Rightarrow> real \<Rightarrow> worker \<Rightarrow> worker" where
  "noteSimilarity cfg sim s =
     (let s' = s\<lparr>similaritySamples := similaritySamples s @ [sim]\<rparr>
      in if adjustEvery cfg \<noteq> 0 \<and> length (similaritySamples s') mod adjustEvery cfg = 0
         then calibrateIfNeeded cfg s' else s')"

text \<open>
  \<^verbatim>\<open>classifyTransition(a, b, timeDiff)\<close> of the worker. The score \<open>sim\<close> is what
  \<^verbatim>\<open>similarityForPair(a, b)\<close> returned (the embedding backend); it is noted by the
  calibrator first, and the comparison reads the thresholds after that.
\<close>

definition classifyTransition ::
    "calibration \<Rightarrow> worker \<Rightarrow> real \<Rightarrow> int \<Rightarrow> transitionType \<times> worker" where
  "classifyTransition cfg s sim timeDiff =
     (let s' = noteSimilarity cfg sim s
      in if timeDiff \<le> 5 * 60 * 1000 \<and> sim \<ge> thr_related s' then (related, s')
         else if sim \<ge> thr_topicShift s' \<or> timeDiff \<le> 30 * 60 * 1000 then (topic_shift, s')
         else (context_switch, s'))"

text \<open>Feeding a sequence of scores to the calibrator, one \<^verbatim>\<open>noteSimilarity\<close> call each.\<close>

fun noteAll :: "calibration \<Rightarrow> real list \<Rightarrow> worker \<Rightarrow> worker" where
  "noteAll cfg [] s = s"
| "noteAll cfg (x # xs) s = noteAll cfg xs (noteSimilarity cfg x s)"

text \<open>
  The classification inside \<^verbatim>\<open>processHistoryData\<close> (the \<^verbatim>\<open>try\<close> branch), with
  \<^verbatim>\<open>SEM_CFG.thresholds\<close> as \<open>(rel, shift)\<close>; no calibration takes place on this path.
\<close>

definition classifyInline :: "real \<Rightarrow> real \<Rightarrow> int \<Rightarrow> real \<Rightarrow> transitionType" where
  "classifyInline rel shift timeDiff semanticSimilarity =
     (if timeDiff \<le> 5 * 60 * 1000 \<and> semanticSimilarity \<ge> rel then related
      else if semanticSimilarity \<ge> shift \<or> timeDiff \<le> 30 * 60 * 1000 then topic_shift
      else context_switch)"

section \<open>Strings\<close>

text \<open>
  The string operations of JavaScript that the analysis uses. \<^verbatim>\<open>\w\<close> is
  \<^verbatim>\<open>[A-Za-z0-9_]\<close>; \<^verbatim>\<open>toLowerCase\<close> is modelled on the ASCII letters (no character
  outside ASCII is a word character, so for tokens only the ASCII part matters).
\<close>

definition isWordChar :: "char \<Rightarrow> bool" where
  "isWordChar c =
     (let n = (of_char c :: nat)
      in (48 \<le> n \<and> n \<le> 57) \<or> (65 \<le> n \<and> n \<le> 90) \<or> n = 95 \<or> (97 \<le> n \<and> n \<le> 122))"

definition toLowerChar :: "char \<Rightarrow> char" where
  "toLowerChar c =
     (let n = (of_char c :: nat) in if 65 \<le> n \<and> n \<le> 90 then char_of (n + 32) else c)"

definition toLowerCase :: "string \<Rightarrow> string" where
  "toLowerCase s = map toLowerChar s"

text \<open>
  The maximal runs of word characters, left to right. This is what
  \<^verbatim>\<open>s.match(/\b\w+\b/g) || []\<close> returns, and also what
  \<^verbatim>\<open>s.replace(/[^\w\s]/g, ' ').split(/\s+/).filter(t => t.length > 0)\<close> returns
  (every character that is not a word character ends up as a separator).
\<close>

fun wordRuns :: "string \<Rightarrow> string \<Rightarrow> string list" where
  "wordRuns cur [] = (if cur = [] then [] else [cur])"
| "wordRuns cur (c # cs) =
     (if isWordChar c then wordRuns (cur @ [c]) cs
      else (if cur = [] then [] else [cur]) @ wordRuns [] cs)"

definition matchWords :: "string \<Rightarrow> string list" where
  "matchWords s = wordRuns [] s"

text \<open>\<^verbatim>\<open>s.startsWith(p)\<close> and \<^verbatim>\<open>s.includes(p)\<close>.\<close>

fun startsWith :: "string \<Rightarrow> string \<Rightarrow> bool" where
  "startsWith s [] = True"
| "startsWith [] (p # ps) = False"
| "startsWith (c # cs) (p # ps) = (c = p \<and> startsWith cs ps)"

fun includesStr :: "string \<Rightarrow> string \<Rightarrow> bool" where
  "includesStr [] p = (p = [])"
| "includesStr (c # cs) p = (startsWith (c # cs) p \<or> includesStr cs p)"

text \<open>\<^verbatim>\<open>s.replace(p, '')\<close> with a string pattern: the first occurrence is removed.\<close>

fun removeFirst :: "string \<Rightarrow> string \<Rightarrow> string" where
  "removeFirst p [] = []"
| "removeFirst p (c # cs) =
     (if startsWith (c # cs) p then drop (length p) (c # cs) else c # removeFirst p cs)"

text \<open>\<^verbatim>\<open>s.split(d)\<close> for a one-character separator; the result is never empty.\<close>

fun splitOn :: "char \<Rightarrow> string \<Rightarrow> string list" where
  "splitOn d [] = [[]]"
| "splitOn d (c # cs) =
     (if c = d then [] # splitOn d cs
      else (case splitOn d cs of [] \<Rightarrow> [[c]] | w # ws \<Rightarrow> (c # w) # ws))"

text \<open>\<^verbatim>\<open>[...new Set(xs)]\<close>: the distinct elements in order of first occurrence.\<close>

definition uniq :: "'a list \<Rightarrow> 'a list" where
  "uniq xs = rev (remdups (rev xs))"

text \<open>
  The Jaccard similarity of the word sets of two strings: \<^verbatim>\<open>jaccard\<close> of
  \<^verbatim>\<open>analysis.js\<close> and \<^verbatim>\<open>jaccardSimilarityTokens\<close> of the visualizer (the same code).
\<close>

definition jaccard :: "string \<Rightarrow> string \<Rightarrow> real" where
  "jaccard a b =
     (let ta = matchWords (toLowerCase a); tb = matchWords (toLowerCase b);
          sa = uniq ta; sb = uniq tb;
          inter = filter (\<lambda>x. x \<in> set sb) sa;
          uni = uniq (sa @ sb)
      in if length uni \<noteq> 0 then real (length inter) / real (length uni) else 0)"

section \<open>Platform functions taken as parameters\<close>

text \<open>
  \<^verbatim>\<open>new URL(url)\<close> belongs to the host, not to the repository. It is a parameter
  \<open>parse\<close>: \<open>None\<close> when the constructor throws, otherwise the pair
  \<open>(hostname, pathname)\<close>.

  \<^verbatim>\<open>new Date(t).getHours()\<close> depends on the host's time zone. It is a parameter
  \<open>zone\<close>, read modulo 24 because \<^verbatim>\<open>getHours\<close> answers 0..23.
\<close>

type_synonym urlParser = "string \<Rightarrow> (string \<times> string) option"

definition getHours :: "(int \<Rightarrow> nat) \<Rightarrow> int \<Rightarrow> nat" where
  "getHours zone t = zone t mod 24"

text \<open>
  \<^verbatim>\<open>extractDomain\<close> (the same in \<^verbatim>\<open>analysis.js\<close> and in both visualizers):
  \<^verbatim>\<open>try { return new URL(url).hostname.replace('www.', '') } catch { return url }\<close>.
\<close>

definition extractDomain :: "urlParser \<Rightarrow> string \<Rightarrow> string" where
  "extractDomain parse u =
     (case parse u of None \<Rightarrow> u | Some (hostname, pathname) \<Rightarrow> removeFirst ''www.'' hostname)"

text \<open>
  \<^verbatim>\<open>x.toFixed(k)\<close> read back as a number (\<^verbatim>\<open>+x.toFixed(k)\<close>), on exact reals: the
  nearest multiple of \<open>10\<^sup>-\<^sup>k\<close>, a tie going away from zero.
\<close>

definition toFixed :: "nat \<Rightarrow> real \<Rightarrow> real" where
  "toFixed k x =
     (if x < 0 then - (of_int \<lfloor>- x * 10 ^ k + 1 / 2\<rfloor> / 10 ^ k)
      else of_int \<lfloor>x * 10 ^ k + 1 / 2\<rfloor> / 10 ^ k)"

section \<open>Visit events, content complexity, segmentation\<close>

text \<open>
  A history record as the browser delivers it; a missing title is the empty string
  (every use in the source reads \<^verbatim>\<open>title || ''\<close> or defaults it to \<^verbatim>\<open>''\<close>).
\<close>

record historyItem =
  url :: string
  title :: string
  lastVisitTime :: int

text \<open>
  The event objects \<^verbatim>\<open>{domain, title, time}\<close> that the analyses work on (field
  \<open>etitle\<close> is \<^verbatim>\<open>title\<close> in the source; the visualizer's events also carry the url,
  which no analysis reads).
\<close>

record event =
  domain :: string
  etitle :: string
  time :: int

datatype error = TypeError | AnalyzerUnavailable

definition toEvent :: "urlParser \<Rightarrow> historyItem \<Rightarrow> event" where
  "toEvent parse h = \<lparr>domain = extractDomain parse (url h), etitle = title h, time = lastVisitTime h\<rparr>"

definition complexityBase :: "(string \<times> real) list" where
  "complexityBase =
     [(''github.com'', 7 / 10), (''stackoverflow.com'', 8 / 10), (''arxiv.org'', 9 / 10),
      (''wikipedia.org'', 6 / 10), (''reddit.com'', 4 / 10), (''youtube.com'', 3 / 10)]"

definition calculateComplexity :: "string \<Rightarrow> string \<Rightarrow> real" where
  "calculateComplexity d t =
     (let score0 = (case map_of complexityBase d of Some v \<Rightarrow> v | None \<Rightarrow> 5 / 10);
          lower = toLowerCase t;
          score1 = foldl (\<lambda>s k. if includesStr lower k then s + 1 / 10 else s) score0
                     [''documentation'', ''api'', ''tutorial'', ''research''];
          score2 = foldl (\<lambda>s k. if includesStr lower k then s - 1 / 10 else s) score1
                     [''meme'', ''funny'', ''social'']
      in min 1 (max 0 score2))"

definition GAP :: int where
  "GAP = 5 * 60 * 1000"

definition eventText :: "event \<Rightarrow> string" where
  "eventText e = etitle e @ domain e"

text \<open>The two continuity tests, for a run whose last event is \<open>prev\<close>.\<close>

definition focusContinues :: "event \<Rightarrow> event \<Rightarrow> bool" where
  "focusContinues prev e \<longleftrightarrow>
     time e - time prev \<le> GAP
     \<and> (domain prev = domain e \<or> jaccard (eventText prev) (eventText e) > 4 / 10)"

definition chainContinues :: "event \<Rightarrow> event \<Rightarrow> bool" where
  "chainContinues prev e \<longleftrightarrow>
     time e - time prev \<le> GAP \<and> jaccard (eventText prev) (eventText e) > 3 / 10"

text \<open>
  The focus-session loop with its two variables, the closed runs \<open>focus\<close> and the open
  run \<open>cur\<close>; the first equation is the push after the loop. The loop is the same in
  \<^verbatim>\<open>analyze\<close> (\<^verbatim>\<open>analysis.js\<close>) and in \<^verbatim>\<open>analyzeFocusSessions\<close>.
\<close>

fun focusLoop :: "event list list \<Rightarrow> event list \<Rightarrow> event list \<Rightarrow> event list list" where
  "focusLoop focus cur [] = (if cur \<noteq> [] then focus @ [cur] else focus)"
| "focusLoop focus cur (e # es) =
     (if cur = [] then focusLoop focus [e] es
      else if focusContinues (last cur) e then focusLoop focus (cur @ [e]) es
      else focusLoop (focus @ [cur]) [e] es)"

text \<open>
  The chain loop (\<^verbatim>\<open>analyze\<close> and \<^verbatim>\<open>detectInformationChains\<close>), with \<open>out\<close> the
  pushed runs (\<^verbatim>\<open>chains\<close>) and \<open>run\<close> the open one (\<^verbatim>\<open>chain\<close>, \<^verbatim>\<open>current\<close>): a run is
  pushed only when it has more than one event.
\<close>

fun chainLoop :: "event list list \<Rightarrow> event list \<Rightarrow> event list \<Rightarrow> event list list" where
  "chainLoop out run [] = (if length run > 1 then out @ [run] else out)"
| "chainLoop out run (e # es) =
     (if run = [] then chainLoop out [e] es
      else if chainContinues (last run) e then chainLoop out (run @ [e]) es
      else chainLoop (if length run > 1 then out @ [run] else out) [e] es)"

text \<open>Mapping a function that may throw over an array: the first throw ends the map.\<close>

fun mapE :: "('a \<Rightarrow> error + 'b) \<Rightarrow> 'a list \<Rightarrow> error + 'b list" where
  "mapE f [] = Inr []"
| "mapE f (x # xs) =
     (case f x of Inl e \<Rightarrow> Inl e
      | Inr y \<Rightarrow> (case mapE f xs of Inl e \<Rightarrow> Inl e | Inr ys \<Rightarrow> Inr (y # ys)))"

definition avgComplexityOf :: "event list \<Rightarrow> real" where
  "avgComplexityOf evts =
     (\<Sum>v\<leftarrow>evts. calculateComplexity (domain v) (etitle v)) / real (length evts)"

text \<open>\<^verbatim>\<open>x || 1\<close> on numbers.\<close>

definition orOne :: "real \<Rightarrow> real" where
  "orOne x = (if x = 0 then 1 else x)"

record focusSession =
  durationMinutes :: real
  pages :: nat
  avgComplexity :: real
  events :: "event list"

record chainSummary =
  chainLength :: nat
  chainDurationMinutes :: real
  chainAvgComplexity :: real
  scentStrength :: real

text \<open>
  The summaries read \<^verbatim>\<open>evts[evts.length-1].time\<close> and \<^verbatim>\<open>evts[0].time\<close>, a TypeError on
  an empty array. First the two of \<^verbatim>\<open>analysis.js\<close>.
\<close>

definition focusSummary :: "event list \<Rightarrow> error + focusSession" where
  "focusSummary evts =
     (if evts = [] then Inl TypeError
      else let dur = real_of_int (time (last evts) - time (hd evts)) / 60000
           in Inr \<lparr>durationMinutes = toFixed 2 dur, pages = length evts,
                   avgComplexity = toFixed 2 (avgComplexityOf evts), events = evts\<rparr>)"

definition chainSummaryOf :: "event list \<Rightarrow> error + chainSummary" where
  "chainSummaryOf c =
     (if c = [] then Inl TypeError
      else let dur = orOne (real_of_int (time (last c) - time (hd c)) / 60000)
           in Inr \<lparr>chainLength = length c, chainDurationMinutes = toFixed 2 dur,
                   chainAvgComplexity = toFixed 2 (avgComplexityOf c),
                   scentStrength = toFixed 2 (real (length c) / dur)\<rparr>)"

text \<open>
  Then \<^verbatim>\<open>summarizeSession\<close> and \<^verbatim>\<open>summarizeChain\<close> of the visualizer (their constant
  fields \<^verbatim>\<open>category: 'general'\<close> and \<^verbatim>\<open>topic: 'general'\<close> are left out).
\<close>

definition summarizeSession :: "event list \<Rightarrow> error + focusSession" where
  "summarizeSession evts =
     (if evts = [] then Inl TypeError
      else let durationMs = orOne (real_of_int (time (last evts) - time (hd evts)))
           in Inr \<lparr>durationMinutes = toFixed 2 (durationMs / 60000), pages = length evts,
                   avgComplexity = toFixed 2 (avgComplexityOf evts), events = evts\<rparr>)"

definition summarizeChain :: "event list \<Rightarrow> error + chainSummary" where
  "summarizeChain evts =
     (if evts = [] then Inl TypeError
      else let durationMs = orOne (real_of_int (time (last evts) - time (hd evts)));
               minutes = orOne (durationMs / 60000)
           in Inr \<lparr>chainLength = length evts, chainDurationMinutes = toFixed 2 minutes,
                   chainAvgComplexity = toFixed 2 (avgComplexityOf evts),
                   scentStrength = toFixed 2 (real (length evts) / minutes)\<rparr>)"

text \<open>
  \<^verbatim>\<open>detectInformationChains\<close> and \<^verbatim>\<open>analyzeFocusSessions\<close>: sort a copy by time
  (\<^verbatim>\<open>Array.prototype.sort\<close> is stable), run the loop, summarise each run as it is pushed.
\<close>

definition detectInformationChains :: "event list \<Rightarrow> error + chainSummary list" where
  "detectInformationChains visitEvents =
     mapE summarizeChain (chainLoop [] [] (sort_key time visitEvents))"

definition analyzeFocusSessions :: "event list \<Rightarrow> error + focusSession list" where
  "analyzeFocusSessions visitEvents =
     mapE summarizeSession (focusLoop [] [] (sort_key time visitEvents))"

section \<open>Temporal analysis\<close>

text \<open>
  The variables of the first loop of \<^verbatim>\<open>analyze\<close> and of \<^verbatim>\<open>analyzeTemporalPatterns\<close>
  (there \<^verbatim>\<open>sessionStart\<close> and \<^verbatim>\<open>lastTime\<close>; in \<^verbatim>\<open>analysis.js\<close> \<^verbatim>\<open>start\<close> and \<^verbatim>\<open>last\<close>);
  \<open>None\<close> is \<^verbatim>\<open>null\<close>.
\<close>

record temporalState =
  hourlyActivity :: "nat list"
  sessions :: "int list"
  sessionStart :: "int option"
  lastTime :: "int option"

definition temporalInit :: temporalState where
  "temporalInit =
     \<lparr>hourlyActivity = replicate 24 0, sessions = [], sessionStart = None, lastTime = None\<rparr>"

text \<open>\<^verbatim>\<open>null\<close> in arithmetic is 0.\<close>

definition numOf :: "int option \<Rightarrow> int" where
  "numOf x = (case x of None \<Rightarrow> 0 | Some v \<Rightarrow> v)"

definition temporalStep :: "(int \<Rightarrow> nat) \<Rightarrow> temporalState \<Rightarrow> event \<Rightarrow> temporalState" where
  "temporalStep zone s v =
     (let h = getHours zone (time v);
          counts = (hourlyActivity s)[h := hourlyActivity s ! h + 1];
          newSession = (case lastTime s of None \<Rightarrow> True | Some l \<Rightarrow> time v - l > GAP);
          pushed = (if newSession
                    then (case sessionStart s of
                            None \<Rightarrow> sessions s
                          | Some st \<Rightarrow> sessions s @ [numOf (lastTime s) - st])
                    else sessions s)
      in \<lparr>hourlyActivity = counts, sessions = pushed,
          sessionStart = (if newSession then Some (time v) else sessionStart s),
          lastTime = Some (time v)\<rparr>)"

definition temporalFinish :: "temporalState \<Rightarrow> int list" where
  "temporalFinish s =
     (case (sessionStart s, lastTime s) of
        (Some st, Some l) \<Rightarrow> sessions s @ [l - st]
      | _ \<Rightarrow> sessions s)"

text \<open>\<^verbatim>\<open>sessions.length ? sessions.reduce((a,b)=>a+b,0)/sessions.length : 0\<close>, in ms.\<close>

definition avgSessionLength :: "int list \<Rightarrow> real" where
  "avgSessionLength ss =
     (if length ss \<noteq> 0 then real_of_int (sum_list ss) / real (length ss) else 0)"

text \<open>\<^verbatim>\<open>arr[i] || 0\<close> on an array of counts.\<close>

definition nthOrZero :: "nat list \<Rightarrow> nat \<Rightarrow> nat" where
  "nthOrZero xs i = (if i < length xs then xs ! i else 0)"

definition peakThreshold :: "nat list \<Rightarrow> nat" where
  "peakThreshold counts =
     (let sortedCounts = sort counts
      in nthOrZero sortedCounts (nat \<lfloor>(75 / 100 :: real) * real (length sortedCounts)\<rfloor>))"

definition peakHoursOf :: "nat list \<Rightarrow> nat list" where
  "peakHoursOf counts =
     (let threshold = peakThreshold counts
      in filter (\<lambda>i. counts ! i \<ge> threshold \<and> counts ! i > 0) [0 ..< length counts])"

text \<open>The synthetic minute series: each hourly count spread over its 60 minutes.\<close>

definition minuteSeriesOf :: "nat list \<Rightarrow> real list" where
  "minuteSeriesOf counts = concat (map (\<lambda>c. replicate 60 (real c / 60)) counts)"

text \<open>The inner function \<^verbatim>\<open>autocorr(series, lag)\<close>.\<close>

definition autocorr :: "real list \<Rightarrow> nat \<Rightarrow> real" where
  "autocorr series lag =
     (let n = int (length series) - int lag
      in if n \<le> 1 then 0
         else let mean = sum_list series / real (length series);
                  num = (\<Sum>i\<leftarrow>[0 ..< nat n]. (series ! i - mean) * (series ! (i + lag) - mean));
                  den = (\<Sum>x\<leftarrow>series. (x - mean) ^ 2)
              in if den \<noteq> 0 then num / den else 0)"

text \<open>
  \<^verbatim>\<open>for (let lag=90; lag<=120; lag+=5) { r = autocorr(minuteSeries, lag);
  if (r > bestR) { bestR = r; bestLag = lag; } }\<close> with \<^verbatim>\<open>bestLag = null\<close>,
  \<^verbatim>\<open>bestR = -Infinity\<close> at the start; \<open>None\<close> stands for both.
\<close>

definition lagStep :: "real list \<Rightarrow> nat option \<times> real option \<Rightarrow> nat \<Rightarrow> nat option \<times> real option" where
  "lagStep series best lag =
     (let r = autocorr series lag
      in if (case snd best of None \<Rightarrow> True | Some b \<Rightarrow> r > b) then (Some lag, Some r) else best)"

function lagLoop :: "real list \<Rightarrow> nat \<Rightarrow> nat option \<times> real option \<Rightarrow> nat option \<times> real option" where
  "lagLoop series lag best =
     (if lag \<le> 120 then lagLoop series (lag + 5) (lagStep series best lag) else best)"
  by pat_completeness auto
termination
  by (relation "measure (\<lambda>(series, lag, best). 121 - lag)") auto

declare lagLoop.simps [simp del]

text \<open>\<^verbatim>\<open>bestLag || null\<close>.\<close>

definition orNull :: "nat option \<Rightarrow> nat option" where
  "orNull x = (case x of None \<Rightarrow> None | Some l \<Rightarrow> if l = 0 then None else Some l)"

record temporalAnalysis =
  taHourlyActivity :: "nat list"
  taPeakHours :: "nat list"
  rhythmPeriod :: "nat option"
  taAvgSessionMinutes :: real

definition analyzeTemporalPatterns :: "(int \<Rightarrow> nat) \<Rightarrow> event list \<Rightarrow> temporalAnalysis" where
  "analyzeTemporalPatterns zone visitEvents =
     (let visitsSorted = sort_key time visitEvents;
          s = foldl (temporalStep zone) temporalInit visitsSorted;
          sess = temporalFinish s;
          minuteSeries = minuteSeriesOf (hourlyActivity s);
          bestLag = fst (lagLoop minuteSeries 90 (None, None))
      in \<lparr>taHourlyActivity = hourlyActivity s,
          taPeakHours = peakHoursOf (hourlyActivity s),
          rhythmPeriod = orNull bestLag,
          taAvgSessionMinutes = toFixed 2 (avgSessionLength sess / 60000)\<rparr>)"

section \<open>The dashboard: \<^verbatim>\<open>analyze\<close> of \<^verbatim>\<open>analysis.js\<close>\<close>

text \<open>\<^verbatim>\<open>complexityByHour\<close>: 24 cells \<^verbatim>\<open>{total, count}\<close>.\<close>

definition complexityStep :: "(int \<Rightarrow> nat) \<Rightarrow> (real \<times> nat) list \<Rightarrow> event \<Rightarrow> (real \<times> nat) list" where
  "complexityStep zone cells ev =
     (let h = getHours zone (time ev); c = calculateComplexity (domain ev) (etitle ev)
      in cells[h := (fst (cells ! h) + c, snd (cells ! h) + 1)])"

definition hourlyComplexityOf :: "(real \<times> nat) list \<Rightarrow> real list" where
  "hourlyComplexityOf cells = map (\<lambda>(tot, n). if n \<noteq> 0 then tot / real n else 0) cells"

text \<open>
  \<^verbatim>\<open>domainCounts[e.domain] = (domainCounts[e.domain]||0)+1\<close>, the object as an association
  list (domains that name a property of \<^verbatim>\<open>Object.prototype\<close> are not modelled).
\<close>

definition countDomain :: "(string \<times> nat) list \<Rightarrow> event \<Rightarrow> (string \<times> nat) list" where
  "countDomain counts e =
     (case map_of counts (domain e) of
        None \<Rightarrow> counts @ [(domain e, 1)]
      | Some c \<Rightarrow> map (\<lambda>(k, v). if k = domain e then (k, v + 1) else (k, v)) counts)"

definition entropyOf :: "nat list \<Rightarrow> nat \<Rightarrow> real" where
  "entropyOf counts totalVisits =
     - (\<Sum>c\<leftarrow>counts. let p = real c / real totalVisits in if p \<noteq> 0 then p * log 2 p else 0)"

record report =
  hourlyComplexity :: "real list"
  peakHours :: "nat list"
  avgSessionMinutes :: real
  focusSessions :: "focusSession list"
  chainSummaries :: "chainSummary list"
  diversity :: real

definition analyze :: "urlParser \<Rightarrow> (int \<Rightarrow> nat) \<Rightarrow> historyItem list \<Rightarrow> error + report" where
  "analyze parse zone history =
     (let evs = sort_key time (map (toEvent parse) history);
          s = foldl (temporalStep zone) temporalInit evs;
          sess = temporalFinish s;
          avg = avgSessionLength sess / 60000;
          focus = focusLoop [] [] evs
      in case mapE focusSummary focus of
           Inl e \<Rightarrow> Inl e
         | Inr fs \<Rightarrow>
             let cells = foldl (complexityStep zone) (replicate 24 (0, 0)) (concat (map events fs));
                 runs = chainLoop [] [] evs
             in case mapE chainSummaryOf runs of
                  Inl e \<Rightarrow> Inl e
                | Inr summaries \<Rightarrow>
                    let domainCounts = foldl countDomain [] evs;
                        totalVisits = (if length evs = 0 then 1 else length evs);
                        d = entropyOf (map snd domainCounts) totalVisits
                    in Inr \<lparr>hourlyComplexity = hourlyComplexityOf cells,
                            peakHours = peakHoursOf (hourlyActivity s),
                            avgSessionMinutes = toFixed 2 avg,
                            focusSessions = fs,
                            chainSummaries = summaries,
                            diversity = toFixed 3 d\<rparr>)"

section \<open>The local semantic analyzer (\<^verbatim>\<open>LocalSemanticAnalyzer\<close>)\<close>

definition stopWords :: "string list" where
  "stopWords =
     [''a'', ''an'', ''and'', ''are'', ''as'', ''at'', ''be'', ''by'', ''for'', ''from'',
      ''has'', ''he'', ''in'', ''is'', ''it'', ''its'', ''of'', ''on'', ''that'', ''the'',
      ''to'', ''was'', ''will'', ''with'', ''www'', ''com'', ''org'', ''net'', ''html'', ''php'']"

definition semanticGroups :: "(string \<times> string list) list" where
  "semanticGroups =
     [(''ai_tech'', [''ai'', ''artificial'', ''intelligence'', ''machine'', ''learning'', ''claude'',
         ''anthropic'', ''chatbot'', ''assistant'', ''bot'', ''neural'', ''model'']),
      (''programming'', [''code'', ''coding'', ''programming'', ''developer'', ''development'',
         ''software'', ''engineer'', ''engineering'', ''github'', ''stackoverflow'', ''python'',
         ''javascript'', ''java'']),
      (''career'', [''job'', ''jobs'', ''career'', ''careers'', ''employment'', ''work'',
         ''professional'', ''linkedin'', ''indeed'', ''resume'', ''hiring'', ''salary'']),
      (''social'', [''social'', ''facebook'', ''twitter'', ''instagram'', ''network'', ''networking'',
         ''community'', ''discussion'', ''forum'', ''reddit'']),
      (''news'', [''news'', ''article'', ''story'', ''report'', ''journalism'', ''media'', ''press'',
         ''breaking'', ''update'', ''politics'']),
      (''shopping'', [''shop'', ''shopping'', ''buy'', ''purchase'', ''store'', ''retail'', ''amazon'',
         ''ebay'', ''product'', ''price'']),
      (''video'', [''video'', ''watch'', ''streaming'', ''youtube'', ''netflix'', ''movie'', ''film'',
         ''entertainment'']),
      (''education'', [''learn'', ''learning'', ''education'', ''course'', ''tutorial'', ''guide'',
         ''university'', ''school'', ''wikipedia''])]"

text \<open>
  The reverse lookup built by the constructor: for a word, the groups that list it, one
  entry per listing, in table order (\<^verbatim>\<open>wordToGroups.has(w)\<close> is ``the list is not empty'').
\<close>

definition wordToGroups :: "string \<Rightarrow> string list" where
  "wordToGroups w =
     concat (map (\<lambda>(g, ws). map (\<lambda>_. g) (filter (\<lambda>x. x = w) ws)) semanticGroups)"

definition tokenize :: "string \<Rightarrow> string list" where
  "tokenize text = matchWords (toLowerCase text)"

text \<open>
  A JavaScript \<^verbatim>\<open>Map\<close> from strings to numbers, as an association list in insertion
  order. \<open>mapGet\<close> is \<^verbatim>\<open>m.get(k) || 0\<close>; \<open>mapAdd\<close> is
  \<^verbatim>\<open>m.set(k, (m.get(k) || 0) + w)\<close>.
\<close>

definition mapGet :: "(string \<times> real) list \<Rightarrow> string \<Rightarrow> real" where
  "mapGet m k = (case map_of m k of None \<Rightarrow> 0 | Some v \<Rightarrow> v)"

definition mapAdd :: "(string \<times> real) list \<Rightarrow> string \<Rightarrow> real \<Rightarrow> (string \<times> real) list" where
  "mapAdd m k w =
     (case map_of m k of
        None \<Rightarrow> m @ [(k, w)]
      | Some _ \<Rightarrow> map (\<lambda>(k', v). if k' = k then (k', v + w) else (k', v)) m)"

definition addToken :: "(string \<times> real) list \<Rightarrow> string \<Rightarrow> (string \<times> real) list" where
  "addToken vec token =
     foldl (\<lambda>v g. mapAdd v (''GROUP_'' @ g) 2) (mapAdd vec token (3 / 10)) (wordToGroups token)"

definition getSemanticVector :: "string list \<Rightarrow> (string \<times> real) list" where
  "getSemanticVector toks =
     (let vec = foldl addToken [] toks;
          magnitude = sqrt (\<Sum>(k, v)\<leftarrow>vec. v * v)
      in if magnitude > 0 then map (\<lambda>(k, v). (k, v / magnitude)) vec else vec)"

text \<open>Every weight of a vector is positive (used to state facts about the vectors).\<close>

definition positiveVec :: "(string \<times> real) list \<Rightarrow> bool" where
  "positiveVec m \<longleftrightarrow> list_all (\<lambda>kv. 0 < snd kv) m"

record features =
  tokens :: "string list"
  fdomain :: string
  semanticVector :: "(string \<times> real) list"

definition allDigits :: "string \<Rightarrow> bool" where
  "allDigits s \<longleftrightarrow> s \<noteq> [] \<and> list_all (\<lambda>c. 48 \<le> (of_char c :: nat) \<and> (of_char c :: nat) \<le> 57) s"

text \<open>
  \<^verbatim>\<open>extractFeatures\<close>. The \<^verbatim>\<open>try\<close> block can only fail in \<^verbatim>\<open>new URL(url)\<close>; the
  \<^verbatim>\<open>catch\<close> branch answers the title as the one token (when it is not empty), the raw
  url as the domain and an empty vector. (\<open>fdomain\<close> is the field \<^verbatim>\<open>domain\<close>.)
\<close>

definition extractFeatures :: "urlParser \<Rightarrow> historyItem \<Rightarrow> features" where
  "extractFeatures parse item =
     (case parse (url item) of
        None \<Rightarrow>
          \<lparr>tokens = filter (\<lambda>t. t \<noteq> []) [title item], fdomain = url item, semanticVector = []\<rparr>
      | Some (hostname, pathname) \<Rightarrow>
          let theDomain = removeFirst ''www.'' hostname;
              titleTokens = tokenize (title item);
              pathTokens =
                concat (map (\<lambda>seg. tokenize
                                (map (\<lambda>c. if c = CHR ''-'' \<or> c = CHR ''_'' then CHR '' '' else c) seg))
                          (filter (\<lambda>seg. seg \<noteq> [] \<and> length seg > 2 \<and> \<not> allDigits seg)
                             (splitOn CHR ''/'' pathname)));
              domainTokens = tokenize (map (\<lambda>c. if c = CHR ''.'' then CHR '' '' else c) theDomain);
              allTokens = titleTokens @ pathTokens @ domainTokens;
              cleanTokens =
                map toLowerCase (filter (\<lambda>t. length t > 2 \<and> t \<notin> set stopWords) allTokens)
          in \<lparr>tokens = cleanTokens, fdomain = theDomain,
               semanticVector = getSemanticVector cleanTokens\<rparr>)"

definition semanticVectorSimilarity :: "(string \<times> real) list \<Rightarrow> (string \<times> real) list \<Rightarrow> real" where
  "semanticVectorSimilarity vectorA vectorB =
     (let allKeys = uniq (uniq (map fst vectorA) @ uniq (map fst vectorB))
      in if length allKeys = 0 then 0
         else let dotProduct = (\<Sum>k\<leftarrow>allKeys. mapGet vectorA k * mapGet vectorB k);
                  normA = (\<Sum>k\<leftarrow>allKeys. mapGet vectorA k * mapGet vectorA k);
                  normB = (\<Sum>k\<leftarrow>allKeys. mapGet vectorB k * mapGet vectorB k);
                  denominator = sqrt normA * sqrt normB
              in if denominator \<noteq> 0 then dotProduct / denominator else 0)"

definition jaccardSimilarity :: "string list \<Rightarrow> string list \<Rightarrow> real" where
  "jaccardSimilarity tokensA tokensB =
     (let setA = uniq tokensA; setB = uniq tokensB;
          intersection = filter (\<lambda>x. x \<in> set setB) setA;
          union = uniq (setA @ setB)
      in if length union > 0 then real (length intersection) / real (length union) else 0)"

definition domainSimilarity :: "string \<Rightarrow> string \<Rightarrow> real" where
  "domainSimilarity domainA domainB =
     (if domainA = domainB then 1
      else let tldA = last (splitOn CHR ''.'' domainA); tldB = last (splitOn CHR ''.'' domainB)
           in if tldA = tldB \<and> (tldA = ''edu'' \<or> tldA = ''gov'' \<or> tldA = ''org'') then 3 / 10
              else if includesStr domainA domainB \<or> includesStr domainB domainA then 6 / 10
              else 0)"

definition companies :: "string list list" where
  "companies =
     [[''anthropic.com'', ''claude.ai'', ''docs.anthropic.com'', ''console.anthropic.com''],
      [''google.com'', ''youtube.com'', ''gmail.com'', ''drive.google.com''],
      [''microsoft.com'', ''outlook.com'', ''office.com'', ''github.com''],
      [''facebook.com'', ''instagram.com'', ''whatsapp.com'', ''meta.com''],
      [''amazon.com'', ''aws.amazon.com'', ''prime.amazon.com''],
      [''linkedin.com'', ''indeed.com'', ''glassdoor.com''],
      [''stackoverflow.com'', ''stackexchange.com'', ''serverfault.com'']]"

definition inCompany :: "string \<Rightarrow> string list \<Rightarrow> bool" where
  "inCompany d companyDomains = list_ex (\<lambda>c. includesStr d c \<or> includesStr c d) companyDomains"

definition companySimilarity :: "string \<Rightarrow> string \<Rightarrow> real" where
  "companySimilarity domainA domainB =
     (if list_ex (\<lambda>companyDomains. inCompany domainA companyDomains \<and> inCompany domainB companyDomains)
           companies
      then 1 else 0)"

text \<open>The adaptive weighted combination and the cap \<^verbatim>\<open>Math.min(finalSimilarity, 1.0)\<close>.\<close>

definition combineSimilarities :: "real \<Rightarrow> real \<Rightarrow> real \<Rightarrow> real \<Rightarrow> real" where
  "combineSimilarities semantic jac domainSim company =
     (let finalSimilarity =
            (if domainSim \<ge> 6 / 10 \<or> company \<ge> 9 / 10
             then semantic * (2 / 10) + jac * (3 / 10) + domainSim * (2 / 10) + company * (3 / 10)
                  + (if domainSim \<ge> 6 / 10 then 4 / 10 else 0)
                  + (if company \<ge> 9 / 10 then 3 / 10 else 0)
             else semantic * (4 / 10) + jac * (3 / 10) + domainSim * (2 / 10) + company * (1 / 10))
      in min finalSimilarity 1)"

text \<open>What \<^verbatim>\<open>calculateSimilarity\<close> computes when the pair is not in the cache.\<close>

definition similarityScore :: "urlParser \<Rightarrow> historyItem \<Rightarrow> historyItem \<Rightarrow> real" where
  "similarityScore parse itemA itemB =
     (let featuresA = extractFeatures parse itemA;
          featuresB = extractFeatures parse itemB
      in combineSimilarities
           (semanticVectorSimilarity (semanticVector featuresA) (semanticVector featuresB))
           (jaccardSimilarity (tokens featuresA) (tokens featuresB))
           (domainSimilarity (fdomain featuresA) (fdomain featuresB))
           (companySimilarity (fdomain featuresA) (fdomain featuresB)))"

text \<open>
  \<^verbatim>\<open>calculateSimilarity\<close> with the analyzer's cache, a map from the key
  \<^verbatim>\<open>`${itemA.url}|||${itemB.url}`\<close> to the score stored for it.
\<close>

definition cacheKey :: "historyItem \<Rightarrow> historyItem \<Rightarrow> string" where
  "cacheKey itemA itemB = url itemA @ ''|||'' @ url itemB"

definition calculateSimilarity ::
    "urlParser \<Rightarrow> (string \<rightharpoonup> real) \<Rightarrow> historyItem \<Rightarrow> historyItem \<Rightarrow> real \<times> (string \<rightharpoonup> real)" where
  "calculateSimilarity parse cache itemA itemB =
     (case cache (cacheKey itemA itemB) of
        Some v \<Rightarrow> (v, cache)
      | None \<Rightarrow>
          let finalSimilarity = similarityScore parse itemA itemB
          in (finalSimilarity, cache(cacheKey itemA itemB \<mapsto> finalSimilarity)))"

text \<open>
  The results of \<^verbatim>\<open>new URL(u)\<close> on the URLs of the examples below, \<open>(hostname, pathname)\<close>;
  the string \<^verbatim>\<open>nourl\<close> has no scheme, so the constructor throws on it.
\<close>

definition exampleURLs :: urlParser where
  "exampleURLs =
     map_of [(''https://claude.ai/chat'', (''claude.ai'', ''/chat'')),
             (''https://docs.anthropic.com/'', (''docs.anthropic.com'', ''/'')),
             (''https://a.example/'', (''a.example'', ''/'')),
             (''https://b.example/'', (''b.example'', ''/''))]"

section \<open>The visualizer: \<^verbatim>\<open>processHistoryData\<close>\<close>

definition FILTERED_DOMAINS :: "string list" where
  "FILTERED_DOMAINS = [''google.com'', ''www.google.com'', ''bing.com'', ''duckduckgo.com'']"

definition notFiltered :: "urlParser \<Rightarrow> historyItem \<Rightarrow> bool" where
  "notFiltered parse item \<longleftrightarrow>
     \<not> list_ex (\<lambda>d. includesStr (extractDomain parse (url item)) d) FILTERED_DOMAINS"

text \<open>
  \<^verbatim>\<open>historyItems.filter(...).sort((a, b) => a.lastVisitTime - b.lastVisitTime)\<close>; the
  sort is stable.
\<close>

definition sortedHistoryOf :: "urlParser \<Rightarrow> historyItem list \<Rightarrow> historyItem list" where
  "sortedHistoryOf parse historyItems =
     sort_key lastVisitTime (filter (notFiltered parse) historyItems)"

text \<open>
  The values of the \<^verbatim>\<open>domainData\<close> map, in insertion order (the rendering field
  \<^verbatim>\<open>color\<close> is left out, here and in the links).
\<close>

record node =
  nodeDomain :: string
  nodeTitle :: string
  visitCount :: nat
  lastVisit :: int
  urls :: "string list"

definition addVisit :: "urlParser \<Rightarrow> node list \<Rightarrow> historyItem \<Rightarrow> node list" where
  "addVisit parse nodes item =
     (let d = extractDomain parse (url item);
          nodes' = (if list_ex (\<lambda>n. nodeDomain n = d) nodes then nodes
                    else nodes @ [\<lparr>nodeDomain = d, nodeTitle = title item, visitCount = 0,
                                   lastVisit = lastVisitTime item, urls = []\<rparr>])
      in map (\<lambda>n. if nodeDomain n = d
                   then n\<lparr>visitCount := visitCount n + 1,
                          urls := (if url item \<in> set (urls n) then urls n else urls n @ [url item]),
                          lastVisit := max (lastVisit n) (lastVisitTime item)\<rparr>
                   else n) nodes')"

text \<open>
  \<^verbatim>\<open>calculateBasicSimilarity\<close>: 0.2 for the same last domain label, plus 0.8 times the
  Jaccard similarity of the title words, capped at 1.
\<close>

definition calculateBasicSimilarity :: "urlParser \<Rightarrow> historyItem \<Rightarrow> historyItem \<Rightarrow> real" where
  "calculateBasicSimilarity parse a b =
     (let aTitle = toLowerCase (title a); bTitle = toLowerCase (title b);
          aDomain = extractDomain parse (url a); bDomain = extractDomain parse (url b);
          aTld = last (splitOn CHR ''.'' aDomain); bTld = last (splitOn CHR ''.'' bDomain);
          similarity0 = (if aTld = bTld then 2 / 10 else 0);
          aWords = uniq (matchWords aTitle); bWords = uniq (matchWords bTitle);
          intersection = filter (\<lambda>x. x \<in> set bWords) aWords;
          union = uniq (aWords @ bWords);
          similarity1 = (if length union > 0
                         then similarity0 + (real (length intersection) / real (length union)) * (8 / 10)
                         else similarity0)
      in min 1 similarity1)"

text \<open>
  \<^verbatim>\<open>calculateLocalSimilarity\<close>. The global \<^verbatim>\<open>window.localSemanticAnalyzer\<close> is a
  parameter: \<open>None\<close> when it is missing (the function throws), otherwise the analyzer's
  cache, which the call updates.
\<close>

type_synonym analyzer = "(string \<rightharpoonup> real) option"

definition calculateLocalSimilarity ::
    "urlParser \<Rightarrow> analyzer \<Rightarrow> historyItem \<Rightarrow> historyItem \<Rightarrow> (error + real) \<times> analyzer" where
  "calculateLocalSimilarity parse an itemA itemB =
     (case an of
        None \<Rightarrow> (Inl AnalyzerUnavailable, None)
      | Some cache \<Rightarrow>
          (case calculateSimilarity parse cache itemA itemB of
             (similarity, cache') \<Rightarrow> (Inr similarity, Some cache')))"

text \<open>The classification of the \<^verbatim>\<open>catch\<close> branch.\<close>

definition fallbackClassify :: "real \<Rightarrow> transitionType" where
  "fallbackClassify semanticSimilarity =
     (if semanticSimilarity \<ge> 7 / 10 then related
      else if semanticSimilarity \<ge> 3 / 10 then topic_shift
      else context_switch)"

record link =
  source :: string
  target :: string
  weight :: nat
  transitionType :: transitionType
  linkLastTime :: int
  similarity :: real

definition connectionKey :: "string \<Rightarrow> string \<Rightarrow> string" where
  "connectionKey a b = a @ ''-'' @ b"

text \<open>
  The \<^verbatim>\<open>try\<close>/\<^verbatim>\<open>catch\<close> of the transition loop: the score and the label of one pair
  of consecutive visits, with \<open>(rel, shift)\<close> the thresholds \<^verbatim>\<open>SEM_CFG.thresholds\<close>.
\<close>

definition scoreTransition ::
    "urlParser \<Rightarrow> real \<Rightarrow> real \<Rightarrow> analyzer \<Rightarrow> historyItem \<Rightarrow> historyItem
       \<Rightarrow> (transitionType \<times> real) \<times> analyzer" where
  "scoreTransition parse rel shift an current nxt =
     (case calculateLocalSimilarity parse an current nxt of
        (Inr semanticSimilarity, an') \<Rightarrow>
          ((classifyInline rel shift (lastVisitTime nxt - lastVisitTime current) semanticSimilarity,
            semanticSimilarity), an')
      | (Inl err, an') \<Rightarrow>
          (let semanticSimilarity = calculateBasicSimilarity parse current nxt
           in ((fallbackClassify semanticSimilarity, semanticSimilarity), an')))"

text \<open>
  The \<^verbatim>\<open>connections\<close> map as an association list in insertion order: a new key
  (\<open>key\<close> is the variable \<^verbatim>\<open>connectionKey\<close>) gets an edge of weight 1, a known key has
  its edge updated.
\<close>

definition upsertConnection ::
    "(string \<times> link) list \<Rightarrow> string \<Rightarrow> string \<Rightarrow> transitionType \<Rightarrow> real \<Rightarrow> int
       \<Rightarrow> (string \<times> link) list" where
  "upsertConnection conns currentDomain nextDomain ttype sim t =
     (let key = connectionKey currentDomain nextDomain
      in case map_of conns key of
           None \<Rightarrow>
             conns @ [(key,
                       \<lparr>source = currentDomain, target = nextDomain, weight = 1,
                        transitionType = ttype, linkLastTime = t, similarity = sim\<rparr>)]
         | Some _ \<Rightarrow>
             map (\<lambda>(k, conn).
                    if k = key
                    then (k, conn\<lparr>weight := weight conn + 1,
                                  linkLastTime := (if t > linkLastTime conn then t else linkLastTime conn),
                                  similarity := (if sim \<noteq> 0 \<and> sim > similarity conn
                                                 then sim else similarity conn)\<rparr>)
                    else (k, conn)) conns)"

definition transitionStep ::
    "urlParser \<Rightarrow> real \<Rightarrow> real \<Rightarrow> (string \<times> link) list \<times> analyzer \<Rightarrow> historyItem \<times> historyItem
       \<Rightarrow> (string \<times> link) list \<times> analyzer" where
  "transitionStep parse rel shift st pair =
     (case (st, pair) of
        ((conns, an), (current, nxt)) \<Rightarrow>
          let currentDomain = extractDomain parse (url current);
              nextDomain = extractDomain parse (url nxt)
          in if currentDomain = nextDomain then (conns, an)
             else (case scoreTransition parse rel shift an current nxt of
                     ((ttype, sim), an') \<Rightarrow>
                       (upsertConnection conns currentDomain nextDomain ttype sim (lastVisitTime nxt),
                        an')))"

text \<open>The pairs \<open>(sortedHistory[i], sortedHistory[i + 1])\<close>.\<close>

definition consecutive :: "'a list \<Rightarrow> ('a \<times> 'a) list" where
  "consecutive xs = zip xs (tl xs)"

text \<open>
  The result: \<^verbatim>\<open>{nodes, links}\<close> together with the fields the method stores on the
  visualizer (\<^verbatim>\<open>temporalAnalysis\<close>, \<^verbatim>\<open>chains\<close>, \<^verbatim>\<open>focusSessions\<close>) and the analyzer as
  the calls left it. The graph metrics and the insights, which no statement below
  concerns, are not modelled.
\<close>

record processed =
  nodes :: "node list"
  links :: "link list"
  temporal :: temporalAnalysis
  chainsFound :: "chainSummary list"
  sessionsFound :: "focusSession list"
  analyzerAfter :: analyzer

definition processHistoryData ::
    "urlParser \<Rightarrow> (int \<Rightarrow> nat) \<Rightarrow> real \<Rightarrow> real \<Rightarrow> analyzer \<Rightarrow> historyItem list
       \<Rightarrow> error + processed" where
  "processHistoryData parse zone rel shift an historyItems =
     (let sortedHistory = sortedHistoryOf parse historyItems;
          domainData = foldl (addVisit parse) [] sortedHistory;
          visitEvents = map (toEvent parse) sortedHistory;
          (connections, an') =
             foldl (transitionStep parse rel shift) ([], an) (consecutive sortedHistory);
          temporalAnalysis = analyzeTemporalPatterns zone visitEvents
      in case detectInformationChains visitEvents of
           Inl e \<Rightarrow> Inl e
         | Inr cs \<Rightarrow>
             (case analyzeFocusSessions visitEvents of
                Inl e \<Rightarrow> Inl e
              | Inr fs \<Rightarrow>
                  Inr \<lparr>nodes = domainData, links = map snd connections,
                       temporal = temporalAnalysis, chainsFound = cs, sessionsFound = fs,
                       analyzerAfter = an'\<rparr>))"

section \<open>The older visualizer (\<^verbatim>\<open>popup.js\<close>): \<^verbatim>\<open>processHistoryDataFallback\<close>\<close>

record basicLink =
  bSource :: string
  bTarget :: string
  bWeight :: nat
  bType :: transitionType

definition TIME_RELATED :: int where
  "TIME_RELATED = 5 * 60 * 1000"

definition TIME_TOPIC_SHIFT :: int where
  "TIME_TOPIC_SHIFT = 30 * 60 * 1000"

definition bumpWeight :: "string \<Rightarrow> (string \<times> basicLink) list \<Rightarrow> (string \<times> basicLink) list" where
  "bumpWeight key conns =
     map (\<lambda>(k, c). if k = key then (k, c\<lparr>bWeight := bWeight c + 1\<rparr>) else (k, c)) conns"

text \<open>
  One step of its transition loop: only pairs at most 30 minutes apart, only different
  domains; an edge already present under the reversed key takes the increment.
\<close>

definition fallbackStep ::
    "urlParser \<Rightarrow> (string \<times> basicLink) list \<Rightarrow> historyItem \<times> historyItem
       \<Rightarrow> (string \<times> basicLink) list" where
  "fallbackStep parse conns pair =
     (case pair of
        (current, nxt) \<Rightarrow>
          let timeDiff = lastVisitTime nxt - lastVisitTime current
          in if timeDiff \<le> TIME_TOPIC_SHIFT
             then let sourceDomain = extractDomain parse (url current);
                      targetDomain = extractDomain parse (url nxt)
                  in if sourceDomain \<noteq> targetDomain
                     then let key = connectionKey sourceDomain targetDomain;
                              reverseKey = connectionKey targetDomain sourceDomain;
                              ttype = (if timeDiff > TIME_RELATED then topic_shift else related)
                          in if map_of conns key = None \<and> map_of conns reverseKey = None
                             then conns @ [(key, \<lparr>bSource = sourceDomain, bTarget = targetDomain,
                                                   bWeight = 1, bType = ttype\<rparr>)]
                             else if map_of conns key \<noteq> None then bumpWeight key conns
                             else if map_of conns reverseKey \<noteq> None then bumpWeight reverseKey conns
                             else conns
                     else conns
             else conns)"

definition processHistoryDataFallback ::
    "urlParser \<Rightarrow> historyItem list \<Rightarrow> node list \<times> basicLink list" where
  "processHistoryDataFallback parse historyItems =
     (let domainData = foldl (addVisit parse) [] (filter (notFiltered parse) historyItems);
          sortedHistory = sortedHistoryOf parse historyItems;
          connections = foldl (fallbackStep parse) [] (consecutive sortedHistory)
      in (domainData, map snd connections))"

section \<open>Invariant of the transition loop\<close>


chapter \<open>Properties\<close>

section \<open>Transition classifier\<close>

text \<open>
  C1. With \<open>sim\<close> the similarity of two consecutive visits and \<open>timeDiff\<close> the elapsed
  time, the classifier answers \<open>related\<close> exactly when \<open>timeDiff \<le> 5 min\<close> and
  \<open>sim \<ge> relatedThreshold\<close>; otherwise \<open>topic_shift\<close> exactly when
  \<open>sim \<ge> topicShiftThreshold\<close> or \<open>timeDiff \<le> 30 min\<close>; otherwise \<open>context_switch\<close>.
  This holds for the worker's \<^verbatim>\<open>classifyTransition\<close> (thresholds read after the score
  has been noted) and for the classification inside \<^verbatim>\<open>processHistoryData\<close>. With the
  default thresholds (0.5 and 0.25 of \<^verbatim>\<open>semanticConfig.js\<close>, or 0.7 and 0.4 where the
  visualizer finds no configuration), two events 2 hours apart with similarity 0 are a
  context switch and two events 2 minutes apart with similarity 0.9 are related.
\<close>

theorem classify_three_branch:
  "(let r = classifyTransition cfg s sim timeDiff;
        rel = thr_related (snd r); shift = thr_topicShift (snd r)
    in snd r = noteSimilarity cfg sim s
     \<and> (fst r = related \<longleftrightarrow> (timeDiff \<le> 5 * 60 * 1000 \<and> sim \<ge> rel))
     \<and> (fst r = topic_shift \<longleftrightarrow>
           \<not> (timeDiff \<le> 5 * 60 * 1000 \<and> sim \<ge> rel)
           \<and> (sim \<ge> shift \<or> timeDiff \<le> 30 * 60 * 1000))
     \<and> (fst r = context_switch \<longleftrightarrow>
           \<not> (timeDiff \<le> 5 * 60 * 1000 \<and> sim \<ge> rel)
           \<and> \<not> (sim \<ge> shift \<or> timeDiff \<le> 30 * 60 * 1000)))
   \<and> (classifyInline rel' shift' timeDiff sim = related \<longleftrightarrow>
           (timeDiff \<le> 5 * 60 * 1000 \<and> sim \<ge> rel'))
   \<and> (classifyInline rel' shift' timeDiff sim = topic_shift \<longleftrightarrow>
           \<not> (timeDiff \<le> 5 * 60 * 1000 \<and> sim \<ge> rel')
           \<and> (sim \<ge> shift' \<or> timeDiff \<le> 30 * 60 * 1000))
   \<and> (classifyInline rel' shift' timeDiff sim = context_switch \<longleftrightarrow>
           \<not> (timeDiff \<le> 5 * 60 * 1000 \<and> sim \<ge> rel')
           \<and> \<not> (sim \<ge> shift' \<or> timeDiff \<le> 30 * 60 * 1000))
   \<and> fst (classifyTransition SEMANTIC_CONFIG_calibration worker_init 0 (2 * 60 * 60 * 1000))
         = context_switch
   \<and> fst (classifyTransition SEMANTIC_CONFIG_calibration worker_init (9 / 10) (2 * 60 * 1000))
         = related
   \<and> classifyInline (50 / 100) (25 / 100) (2 * 60 * 60 * 1000) 0 = context_switch
   \<and> classifyInline (50 / 100) (25 / 100) (2 * 60 * 1000) (9 / 10) = related
   \<and> classifyInline (70 / 100) (40 / 100) (2 * 60 * 60 * 1000) 0 = context_switch
   \<and> classifyInline (70 / 100) (40 / 100) (2 * 60 * 1000) (9 / 10) = related"
  by (simp add: classifyTransition_def classifyInline_def Let_def
        noteSimilarity_def SEMANTIC_CONFIG_calibration_def worker_init_def)

section \<open>Threshold calibrator\<close>






lemma calibrateIfNeeded_topicShift [simp]:
  "thr_topicShift (calibrateIfNeeded cfg s) = thr_topicShift s"
  by (simp add: calibrateIfNeeded_def Let_def)

lemma noteSimilarity_topicShift [simp]:
  "thr_topicShift (noteSimilarity cfg x s) = thr_topicShift s"
  by (simp add: noteSimilarity_def Let_def)

lemma noteAll_topicShift [simp]:
  "thr_topicShift (noteAll cfg xs s) = thr_topicShift s"
  by (induction xs arbitrary: s) simp_all










section \<open>Session and chain segmentation\<close>

lemma focusLoop_concat:
  "concat (focusLoop focus cur es) = concat focus @ cur @ es"
  by (induction focus cur es rule: focusLoop.induct) simp_all

lemma focusLoop_nonempty:
  "[] \<notin> set focus \<Longrightarrow> [] \<notin> set (focusLoop focus cur es)"
  by (induction focus cur es rule: focusLoop.induct) simp_all

lemma chainLoop_long:
  "(\<And>r. r \<in> set out \<Longrightarrow> 2 \<le> length r) \<Longrightarrow> r \<in> set (chainLoop out run es) \<Longrightarrow> 2 \<le> length r"
proof (induction out run es rule: chainLoop.induct)
  case (1 out run)
  then show ?case by (cases "1 < length run") auto
next
  case (2 out run e es)
  show ?case
  proof (cases "run = []")
    case True
    then show ?thesis using 2(1) 2(4) 2(5) by simp
  next
    case ne: False
    show ?thesis
    proof (cases "chainContinues (last run) e")
      case True
      then show ?thesis using ne 2(2) 2(4) 2(5) by simp
    next
      case nc: False
      show ?thesis
      proof (cases "1 < length run")
        case True
        have "\<And>r. r \<in> set (out @ [run]) \<Longrightarrow> 2 \<le> length r"
          using True 2(4) by auto
        then show ?thesis using ne nc True 2(3) 2(5) by simp
      next
        case False
        then show ?thesis using ne nc 2(3) 2(4) 2(5) by simp
      qed
    qed
  qed
qed

lemma chainLoop_total:
  "length (concat (chainLoop out run es)) \<le> length (concat out) + length run + length es"
proof (induction out run es rule: chainLoop.induct)
  case (1 out run)
  then show ?case by simp
next
  case (2 out run e es)
  show ?case
  proof (cases "run = []")
    case True
    then show ?thesis using 2(1) by simp
  next
    case ne: False
    show ?thesis
    proof (cases "chainContinues (last run) e")
      case True
      then show ?thesis using ne 2(2) by simp
    next
      case False
      then show ?thesis using ne 2(3) by (cases "1 < length run") simp_all
    qed
  qed
qed

lemma length_concat_sum: "length (concat xss) = (\<Sum>xs\<leftarrow>xss. length xs)"
  by (induction xss) simp_all

lemma focusSummary_ok:
  "evts \<noteq> [] \<Longrightarrow> \<exists>s. focusSummary evts = Inr s \<and> pages s = length evts \<and> events s = evts"
  by (simp add: focusSummary_def Let_def)

lemma mapE_all:
  assumes "\<And>x. x \<in> set xs \<Longrightarrow> \<exists>y. f x = Inr y \<and> P x y"
  shows "\<exists>ys. mapE f xs = Inr ys \<and> list_all2 P xs ys"
  using assms
proof (induction xs)
  case Nil
  then show ?case by simp
next
  case (Cons x xs)
  obtain y where y: "f x = Inr y" "P x y" using Cons.prems by auto
  obtain ys where ys: "mapE f xs = Inr ys" "list_all2 P xs ys" using Cons by auto
  show ?case using y ys by simp
qed

lemma pages_sum:
  "list_all2 (\<lambda>r s. pages s = length r \<and> events s = r) runs fs \<Longrightarrow>
   (\<Sum>s\<leftarrow>fs. pages s) = length (concat runs) \<and> concat (map events fs) = concat runs"
  by (induction runs fs rule: list_all2_induct) simp_all


lemma summarizeSession_ok:
  "evts \<noteq> [] \<Longrightarrow> \<exists>s. summarizeSession evts = Inr s \<and> pages s = length evts \<and> events s = evts"
  by (simp add: summarizeSession_def Let_def)

lemma chainSummaryOf_ok:
  "c \<noteq> [] \<Longrightarrow> \<exists>s. chainSummaryOf c = Inr s \<and> chainLength s = length c"
  by (simp add: chainSummaryOf_def Let_def)

lemma summarizeChain_ok:
  "c \<noteq> [] \<Longrightarrow> \<exists>s. summarizeChain c = Inr s \<and> chainLength s = length c"
  by (simp add: summarizeChain_def Let_def)

lemma chain_sum:
  "list_all2 (\<lambda>r s. chainLength s = length r) runs cs \<Longrightarrow>
   (\<Sum>c\<leftarrow>cs. chainLength c) = length (concat runs)"
  by (induction runs cs rule: list_all2_induct) simp_all

lemma list_all2_right_mem:
  "list_all2 P xs ys \<Longrightarrow> y \<in> set ys \<Longrightarrow> \<exists>x\<in>set xs. P x y"
  by (induction xs ys rule: list_all2_induct) auto

text \<open>The focus pass over a sorted event list \<open>evs\<close>, with either summary function.\<close>

lemma focus_pass:
  assumes f: "\<And>evts. evts \<noteq> [] \<Longrightarrow> \<exists>s. f evts = Inr s \<and> pages s = length evts \<and> events s = evts"
  shows "\<exists>fs. mapE f (focusLoop [] [] evs) = Inr fs
           \<and> (\<Sum>s\<leftarrow>fs. pages s) = length evs
           \<and> concat (map events fs) = evs
           \<and> (\<forall>s\<in>set fs. 1 \<le> pages s)"
proof -
  let ?runs = "focusLoop [] [] evs"
  have ne: "[] \<notin> set ?runs" using focusLoop_nonempty [of "[]" "[]" evs] by simp
  have "\<exists>s. f r = Inr s \<and> (pages s = length r \<and> events s = r)" if "r \<in> set ?runs" for r
  proof -
    have "r \<noteq> []" using that ne by auto
    then show ?thesis using f [of r] by simp
  qed
  then obtain fs where fs: "mapE f ?runs = Inr fs"
      and rel: "list_all2 (\<lambda>r s. pages s = length r \<and> events s = r) ?runs fs"
    using mapE_all [of ?runs f "\<lambda>r s. pages s = length r \<and> events s = r"] by blast
  have cc: "concat ?runs = evs" by (simp add: focusLoop_concat)
  have sums: "(\<Sum>s\<leftarrow>fs. pages s) = length evs" "concat (map events fs) = evs"
    using pages_sum [OF rel] cc by simp_all
  have "1 \<le> pages s" if mem: "s \<in> set fs" for s
  proof -
    obtain r where r: "r \<in> set ?runs" "pages s = length r"
      using list_all2_right_mem [OF rel mem] by blast
    have "r \<noteq> []" using r(1) ne by auto
    then show ?thesis using r(2) by (cases r) simp_all
  qed
  then show ?thesis using fs sums by blast
qed

text \<open>The chain pass, likewise.\<close>

lemma chain_pass:
  assumes f: "\<And>c. c \<noteq> [] \<Longrightarrow> \<exists>s. f c = Inr s \<and> chainLength s = length c"
  shows "\<exists>cs. mapE f (chainLoop [] [] evs) = Inr cs
           \<and> (\<Sum>c\<leftarrow>cs. chainLength c) \<le> length evs
           \<and> (\<forall>c\<in>set cs. 2 \<le> chainLength c)"
proof -
  let ?runs = "chainLoop [] [] evs"
  have long: "2 \<le> length r" if "r \<in> set ?runs" for r
    using chainLoop_long [of "[]" r "[]" evs] that by simp
  have "\<exists>s. f r = Inr s \<and> chainLength s = length r" if "r \<in> set ?runs" for r
  proof -
    have "r \<noteq> []" using long [OF that] by auto
    then show ?thesis using f [of r] by simp
  qed
  then obtain cs where cs: "mapE f ?runs = Inr cs"
      and rel: "list_all2 (\<lambda>r s. chainLength s = length r) ?runs cs"
    using mapE_all [of ?runs f "\<lambda>r s. chainLength s = length r"] by blast
  have "(\<Sum>c\<leftarrow>cs. chainLength c) = length (concat ?runs)" using chain_sum [OF rel] .
  also have "\<dots> \<le> length evs" using chainLoop_total [of "[]" "[]" evs] by simp
  finally have le: "(\<Sum>c\<leftarrow>cs. chainLength c) \<le> length evs" .
  have "2 \<le> chainLength c" if mem: "c \<in> set cs" for c
  proof -
    obtain r where "r \<in> set ?runs" "chainLength c = length r"
      using list_all2_right_mem [OF rel mem] by blast
    then show ?thesis using long by simp
  qed
  then show ?thesis using cs le by blast
qed

lemma analyze_unfold:
  assumes "mapE focusSummary (focusLoop [] [] (sort_key time (map (toEvent parse) history))) = Inr fs"
      and "mapE chainSummaryOf (chainLoop [] [] (sort_key time (map (toEvent parse) history))) = Inr cs"
  shows "\<exists>r. analyze parse zone history = Inr r \<and> focusSessions r = fs \<and> chainSummaries r = cs
           \<and> peakHours r = peakHoursOf (hourlyActivity
                 (foldl (temporalStep zone) temporalInit
                    (sort_key time (map (toEvent parse) history))))"
  using assms by (simp add: analyze_def Let_def)

text \<open>
  C4. The focus pass partitions the chronologically sorted events exactly: the sessions,
  concatenated in order, are the sorted event list, so the page counts add up to the
  number of input events, no event is dropped or put in two sessions, and every session
  (singletons included) has at least one page. The chain pass emits only runs of at
  least two events, and the chain lengths add up to at most the number of input events.
  Both hold for \<^verbatim>\<open>analyze\<close> of \<^verbatim>\<open>analysis.js\<close> and for \<^verbatim>\<open>analyzeFocusSessions\<close> /
  \<^verbatim>\<open>detectInformationChains\<close> of the visualizer, and none of them throws.
\<close>

theorem sessions_partition_chains_drop_singletons:
  "(\<exists>r. analyze parse zone history = Inr r
      \<and> (\<Sum>s\<leftarrow>focusSessions r. pages s) = length history
      \<and> concat (map events (focusSessions r)) = sort_key time (map (toEvent parse) history)
      \<and> (\<forall>s\<in>set (focusSessions r). 1 \<le> pages s)
      \<and> (\<Sum>c\<leftarrow>chainSummaries r. chainLength c) \<le> length history
      \<and> (\<forall>c\<in>set (chainSummaries r). 2 \<le> chainLength c))
   \<and> (\<exists>fs. analyzeFocusSessions visitEvents = Inr fs
      \<and> (\<Sum>s\<leftarrow>fs. pages s) = length visitEvents
      \<and> concat (map events fs) = sort_key time visitEvents
      \<and> (\<forall>s\<in>set fs. 1 \<le> pages s))
   \<and> (\<exists>cs. detectInformationChains visitEvents = Inr cs
      \<and> (\<Sum>c\<leftarrow>cs. chainLength c) \<le> length visitEvents
      \<and> (\<forall>c\<in>set cs. 2 \<le> chainLength c))"
proof -
  let ?evs = "sort_key time (map (toEvent parse) history)"
  obtain fs where fs: "mapE focusSummary (focusLoop [] [] ?evs) = Inr fs"
      "(\<Sum>s\<leftarrow>fs. pages s) = length ?evs" "concat (map events fs) = ?evs"
      "\<forall>s\<in>set fs. 1 \<le> pages s"
    using focus_pass [of focusSummary ?evs] focusSummary_ok by blast
  obtain cs where cs: "mapE chainSummaryOf (chainLoop [] [] ?evs) = Inr cs"
      "(\<Sum>c\<leftarrow>cs. chainLength c) \<le> length ?evs" "\<forall>c\<in>set cs. 2 \<le> chainLength c"
    using chain_pass [of chainSummaryOf ?evs] chainSummaryOf_ok by blast
  obtain r where r: "analyze parse zone history = Inr r" "focusSessions r = fs" "chainSummaries r = cs"
    using analyze_unfold [OF fs(1) cs(1)] by blast
  have A: "\<exists>r. analyze parse zone history = Inr r
      \<and> (\<Sum>s\<leftarrow>focusSessions r. pages s) = length history
      \<and> concat (map events (focusSessions r)) = ?evs
      \<and> (\<forall>s\<in>set (focusSessions r). 1 \<le> pages s)
      \<and> (\<Sum>c\<leftarrow>chainSummaries r. chainLength c) \<le> length history
      \<and> (\<forall>c\<in>set (chainSummaries r). 2 \<le> chainLength c)"
    using r fs cs by simp
  have B: "\<exists>fs. analyzeFocusSessions visitEvents = Inr fs
      \<and> (\<Sum>s\<leftarrow>fs. pages s) = length visitEvents
      \<and> concat (map events fs) = sort_key time visitEvents
      \<and> (\<forall>s\<in>set fs. 1 \<le> pages s)"
    using focus_pass [of summarizeSession "sort_key time visitEvents"] summarizeSession_ok
    by (simp add: analyzeFocusSessions_def)
  have C: "\<exists>cs. detectInformationChains visitEvents = Inr cs
      \<and> (\<Sum>c\<leftarrow>cs. chainLength c) \<le> length visitEvents
      \<and> (\<forall>c\<in>set cs. 2 \<le> chainLength c)"
    using chain_pass [of summarizeChain "sort_key time visitEvents"] summarizeChain_ok
    by (simp add: detectInformationChains_def)
  show ?thesis using A B C by blast
qed


theorem sessions_partition_chains_drop_singletons_witness:
  "(\<exists>r. analyze (\<lambda>u. None) (\<lambda>t. 0) [\<lparr>url = ''a.com'', title = ''x'', lastVisitTime = 0\<rparr>] = Inr r
      \<and> map pages (focusSessions r) = [1] \<and> chainSummaries r = [])
   \<and> (\<exists>fs. analyzeFocusSessions [\<lparr>domain = ''a.com'', etitle = ''x'', time = 0\<rparr>] = Inr fs
      \<and> map pages fs = [1])
   \<and> detectInformationChains [\<lparr>domain = ''a.com'', etitle = ''x'', time = 0\<rparr>] = Inr []"
  using sessions_partition_chains_drop_singletons
          [of "\<lambda>u. None" "\<lambda>t. 0" "[\<lparr>url = ''a.com'', title = ''x'', lastVisitTime = 0\<rparr>]"
              "[\<lparr>domain = ''a.com'', etitle = ''x'', time = 0\<rparr>]"]
  by (simp add: analyze_def analyzeFocusSessions_def detectInformationChains_def
        focusSummary_def chainSummaryOf_def summarizeSession_def summarizeChain_def Let_def)

section \<open>Peak hours\<close>

lemma temporalStep_counts:
  assumes "length (hourlyActivity s) = 24"
  shows "length (hourlyActivity (temporalStep zone s v)) = 24
       \<and> sum_list (hourlyActivity (temporalStep zone s v)) = sum_list (hourlyActivity s) + 1"
proof -
  have h: "getHours zone (time v) < length (hourlyActivity s)"
    using assms by (simp add: getHours_def)
  show ?thesis
    using assms h by (simp add: temporalStep_def Let_def sum_list_update)
qed

lemma temporal_fold_counts:
  "length (hourlyActivity s) = 24 \<Longrightarrow>
   length (hourlyActivity (foldl (temporalStep zone) s evs)) = 24
   \<and> sum_list (hourlyActivity (foldl (temporalStep zone) s evs))
       = sum_list (hourlyActivity s) + length evs"
proof (induction evs arbitrary: s)
  case Nil
  then show ?case by simp
next
  case (Cons v evs)
  show ?case
    using Cons.IH [of "temporalStep zone s v"] temporalStep_counts [OF Cons.prems, of zone v]
    by simp
qed

lemma temporal_counts:
  "length (hourlyActivity (foldl (temporalStep zone) temporalInit evs)) = 24
   \<and> sum_list (hourlyActivity (foldl (temporalStep zone) temporalInit evs)) = length evs"
  using temporal_fold_counts [of temporalInit zone evs] by (simp add: temporalInit_def)

lemma peakThreshold_24:
  "length counts = 24 \<Longrightarrow> peakThreshold counts = sort counts ! 18"
  by (simp add: peakThreshold_def nthOrZero_def Let_def)

lemma sort_nth_in_set:
  fixes xs :: "nat list"
  shows "i < length xs \<Longrightarrow> sort xs ! i \<in> set xs"
  by (metis length_sort nth_mem set_sort)

lemma mem_peakHoursOf:
  "h \<in> set (peakHoursOf counts) \<longleftrightarrow>
     h < length counts \<and> peakThreshold counts \<le> counts ! h \<and> 0 < counts ! h"
  by (auto simp add: peakHoursOf_def Let_def)

lemma peak_facts:
  fixes counts :: "nat list"
  assumes len: "length counts = 24" and pos: "0 < sum_list counts"
  shows "0 < Max (set counts)"
    and "peakThreshold counts \<le> Max (set counts)"
    and "\<exists>h<24. counts ! h = Max (set counts)"
    and "\<And>h. h < 24 \<Longrightarrow> counts ! h = Max (set counts) \<Longrightarrow> h \<in> set (peakHoursOf counts)"
proof -
  have ne: "set counts \<noteq> {}" using len by auto
  obtain x where x: "x \<in> set counts" "0 < x"
    using pos by (metis sum_list_eq_0_iff  neq0_conv less_numeral_extra(3))
  have "x \<le> Max (set counts)" using x(1) by (intro Max_ge) simp_all
  then show m: "0 < Max (set counts)" using x(2) by linarith
  have "sort counts ! 18 \<in> set counts" using sort_nth_in_set [of 18 counts] len by simp
  then have "sort counts ! 18 \<le> Max (set counts)" by (intro Max_ge) simp_all
  then show t: "peakThreshold counts \<le> Max (set counts)"
    using peakThreshold_24 [OF len] by simp
  have "Max (set counts) \<in> set counts" using ne by simp
  then show "\<exists>h<24. counts ! h = Max (set counts)"
    using len by (metis in_set_conv_nth)
  show "h \<in> set (peakHoursOf counts)" if "h < 24" "counts ! h = Max (set counts)" for h
    using that m t len by (simp add: mem_peakHoursOf)
qed


lemma analyze_returns:
  "\<exists>r. analyze parse zone history = Inr r
       \<and> peakHours r = peakHoursOf (hourlyActivity
             (foldl (temporalStep zone) temporalInit
                (sort_key time (map (toEvent parse) history))))"
proof -
  let ?evs = "sort_key time (map (toEvent parse) history)"
  obtain fs where fs: "mapE focusSummary (focusLoop [] [] ?evs) = Inr fs"
    using focus_pass [of focusSummary ?evs] focusSummary_ok by blast
  obtain cs where cs: "mapE chainSummaryOf (chainLoop [] [] ?evs) = Inr cs"
    using chain_pass [of chainSummaryOf ?evs] chainSummaryOf_ok by blast
  show ?thesis using analyze_unfold [OF fs cs, of zone] by blast
qed

text \<open>
  C10. For a non-empty event list the peak-hour list is not empty. The 24 hourly counts
  add up to the number of events; the threshold is the entry at index
  \<open>floor (0.75 * 24) = 18\<close> of the ascending counts; the maximum count is positive and
  at least the threshold, so an hour of maximum activity is a peak hour. This holds for
  \<^verbatim>\<open>analyzeTemporalPatterns\<close> and for \<^verbatim>\<open>analyze\<close> of \<^verbatim>\<open>analysis.js\<close>.
\<close>

theorem peak_hours_nonempty:
  "(visitEvents \<noteq> [] \<longrightarrow>
      (let ta = analyzeTemporalPatterns zone visitEvents; counts = taHourlyActivity ta
       in length counts = 24 \<and> sum_list counts = length visitEvents
        \<and> peakThreshold counts = sort counts ! 18
        \<and> 0 < Max (set counts) \<and> peakThreshold counts \<le> Max (set counts)
        \<and> (\<exists>h. h < 24 \<and> counts ! h = Max (set counts) \<and> h \<in> set (taPeakHours ta))
        \<and> taPeakHours ta \<noteq> []))
   \<and> (history \<noteq> [] \<longrightarrow>
      (\<exists>r. analyze parse zone history = Inr r \<and> peakHours r \<noteq> []))"
proof -
  have gen: "length counts = 24 \<and> peakThreshold counts = sort counts ! 18
        \<and> 0 < Max (set counts) \<and> peakThreshold counts \<le> Max (set counts)
        \<and> (\<exists>h. h < 24 \<and> counts ! h = Max (set counts) \<and> h \<in> set (peakHoursOf counts))
        \<and> peakHoursOf counts \<noteq> []"
    if c: "counts = hourlyActivity (foldl (temporalStep zone) temporalInit evs)" and ne: "evs \<noteq> []"
    for counts evs
  proof -
    have len: "length counts = 24" and sm: "sum_list counts = length evs"
      using temporal_counts [of zone evs] c by simp_all
    have pos: "0 < sum_list counts" using sm ne by simp
    obtain h where h: "h < 24" "counts ! h = Max (set counts)"
      using peak_facts(3) [OF len pos] by blast
    have mem: "h \<in> set (peakHoursOf counts)" using peak_facts(4) [OF len pos h] .
    then have "peakHoursOf counts \<noteq> []" by auto
    then show ?thesis
      using len peakThreshold_24 [OF len] peak_facts(1,2) [OF len pos] h mem by blast
  qed
  have A: "visitEvents \<noteq> [] \<longrightarrow>
      (let ta = analyzeTemporalPatterns zone visitEvents; counts = taHourlyActivity ta
       in length counts = 24 \<and> sum_list counts = length visitEvents
        \<and> peakThreshold counts = sort counts ! 18
        \<and> 0 < Max (set counts) \<and> peakThreshold counts \<le> Max (set counts)
        \<and> (\<exists>h. h < 24 \<and> counts ! h = Max (set counts) \<and> h \<in> set (taPeakHours ta))
        \<and> taPeakHours ta \<noteq> [])"
  proof
    assume ne: "visitEvents \<noteq> []"
    let ?evs = "sort_key time visitEvents"
    let ?counts = "hourlyActivity (foldl (temporalStep zone) temporalInit ?evs)"
    have ne': "?evs \<noteq> []" using ne by (metis length_sort length_0_conv)
    have sm: "sum_list ?counts = length visitEvents"
      using temporal_counts [of zone ?evs] by simp
    show "let ta = analyzeTemporalPatterns zone visitEvents; counts = taHourlyActivity ta
       in length counts = 24 \<and> sum_list counts = length visitEvents
        \<and> peakThreshold counts = sort counts ! 18
        \<and> 0 < Max (set counts) \<and> peakThreshold counts \<le> Max (set counts)
        \<and> (\<exists>h. h < 24 \<and> counts ! h = Max (set counts) \<and> h \<in> set (taPeakHours ta))
        \<and> taPeakHours ta \<noteq> []"
      using gen [OF refl ne'] sm by (simp add: analyzeTemporalPatterns_def Let_def)
  qed
  have B: "history \<noteq> [] \<longrightarrow> (\<exists>r. analyze parse zone history = Inr r \<and> peakHours r \<noteq> [])"
  proof
    assume ne: "history \<noteq> []"
    let ?evs = "sort_key time (map (toEvent parse) history)"
    have ne': "?evs \<noteq> []" using ne by (metis length_sort length_map length_0_conv)
    show "\<exists>r. analyze parse zone history = Inr r \<and> peakHours r \<noteq> []"
      using gen [OF refl ne'] analyze_returns [of parse zone history] by auto
  qed
  show ?thesis using A B by blast
qed

lemma single_event_counts:
  "hourlyActivity (temporalStep (\<lambda>t. 9) temporalInit ev) = (replicate 24 0)[9 := Suc 0]"
  by (simp add: temporalStep_def temporalInit_def getHours_def Let_def)

lemma single_event_peak: "peakHoursOf ((replicate 24 (0::nat))[9 := Suc 0]) = [9]"
  by code_simp

theorem peak_hours_nonempty_witness:
  "(let ta = analyzeTemporalPatterns (\<lambda>t. 9) [\<lparr>domain = ''a.com'', etitle = ''x'', time = 0\<rparr>]
    in taHourlyActivity ta = (replicate 24 0)[9 := 1] \<and> taPeakHours ta = [9])
   \<and> (\<exists>r. analyze (\<lambda>u. None) (\<lambda>t. 9) [\<lparr>url = ''a.com'', title = ''x'', lastVisitTime = 0\<rparr>] = Inr r
         \<and> peakHours r = [9])"
  using peak_hours_nonempty
          [of "[\<lparr>domain = ''a.com'', etitle = ''x'', time = 0\<rparr>]" "\<lambda>t. 9"
              "[\<lparr>url = ''a.com'', title = ''x'', lastVisitTime = 0\<rparr>]" "\<lambda>u. None"]
  by (simp add: analyzeTemporalPatterns_def analyze_def single_event_counts single_event_peak
        Let_def focusSummary_def chainSummaryOf_def)

section \<open>Rhythm period\<close>














section \<open>Similarity signals\<close>


lemma uniq_set [simp]: "set (uniq xs) = set xs"
  by (simp add: uniq_def)

lemma uniq_distinct [simp]: "distinct (uniq xs)"
  by (simp add: uniq_def)

lemma uniq_length: "length (uniq xs) = card (set xs)"
  by (metis uniq_distinct uniq_set distinct_card)

lemma uniq_empty [simp]: "uniq xs = [] \<longleftrightarrow> xs = []"
  by (simp add: uniq_def)



lemma jaccardSimilarity_card:
  "jaccardSimilarity a b =
     (if set a \<union> set b \<noteq> {} then real (card (set a \<inter> set b)) / real (card (set a \<union> set b)) else 0)"
proof -
  have i: "length (filter (\<lambda>x. x \<in> set (uniq b)) (uniq a)) = card (set a \<inter> set b)"
    using distinct_length_filter [of "uniq a" "\<lambda>x. x \<in> set b"] by (simp add: Int_commute Collect_mem_eq)
  have u: "length (uniq (uniq a @ uniq b)) = card (set a \<union> set b)"
    by (simp add: uniq_length)
  have z: "card (set a \<union> set b) > 0 \<longleftrightarrow> set a \<union> set b \<noteq> {}"
    by (simp add: card_gt_0_iff)
  show ?thesis
    unfolding jaccardSimilarity_def Let_def i u using z by auto
qed






text \<open>Positivity of the semantic vector.\<close>

lemma positiveVec_mapAdd:
  "positiveVec m \<Longrightarrow> 0 < w \<Longrightarrow> positiveVec (mapAdd m k w) \<and> mapAdd m k w \<noteq> []"
proof -
  assume p: "positiveVec m" and w: "0 < w"
  show ?thesis
  proof (cases "map_of m k")
    case None
    then show ?thesis using p w by (simp add: mapAdd_def positiveVec_def)
  next
    case (Some v)
    then have ne: "m \<noteq> []" by auto
    have "list_all (\<lambda>kv. 0 < snd kv)
            (map (\<lambda>(k', v). if k' = k then (k', v + w) else (k', v)) m)"
      using p w unfolding positiveVec_def list_all_iff by (auto intro: add_pos_pos)
    then show ?thesis using Some ne by (simp add: mapAdd_def positiveVec_def)
  qed
qed

lemma positiveVec_groups:
  "positiveVec m \<Longrightarrow> m \<noteq> [] \<Longrightarrow>
   positiveVec (foldl (\<lambda>v g. mapAdd v (''GROUP_'' @ g) 2) m gs)
   \<and> foldl (\<lambda>v g. mapAdd v (''GROUP_'' @ g) 2) m gs \<noteq> []"
proof (induction gs arbitrary: m)
  case Nil
  then show ?case by simp
next
  case (Cons g gs)
  have "positiveVec (mapAdd m (''GROUP_'' @ g) 2) \<and> mapAdd m (''GROUP_'' @ g) 2 \<noteq> []"
    using positiveVec_mapAdd [OF Cons.prems(1), of 2] by simp
  then show ?case using Cons.IH by simp
qed

lemma positiveVec_addToken:
  "positiveVec m \<Longrightarrow> positiveVec (addToken m t) \<and> addToken m t \<noteq> []"
  unfolding addToken_def
  using positiveVec_mapAdd [of m "3 / 10" t] positiveVec_groups by simp

lemma positiveVec_fold:
  "positiveVec m \<Longrightarrow> positiveVec (foldl addToken m ts) \<and> (m \<noteq> [] \<or> ts \<noteq> [] \<longrightarrow> foldl addToken m ts \<noteq> [])"
proof (induction ts arbitrary: m)
  case Nil
  then show ?case by simp
next
  case (Cons t ts)
  have "positiveVec (addToken m t) \<and> addToken m t \<noteq> []"
    using positiveVec_addToken [OF Cons.prems] .
  then show ?case using Cons.IH [of "addToken m t"] by simp
qed

lemma positive_sum_squares:
  "positiveVec m \<Longrightarrow> m \<noteq> [] \<Longrightarrow> 0 < (\<Sum>(k, v)\<leftarrow>m. v * v)"
proof (induction m)
  case Nil
  then show ?case by simp
next
  case (Cons kv m)
  obtain k v where kv: "kv = (k, v)" by (cases kv)
  have v: "0 < v" and pm: "positiveVec m" using Cons.prems(1) kv by (simp_all add: positiveVec_def)
  have "0 \<le> (\<Sum>(k, v)\<leftarrow>m. v * v)"
    by (rule sum_list_nonneg) auto
  then show ?case using v kv by (simp add: add_pos_nonneg)
qed

lemma getSemanticVector_positive:
  "positiveVec (getSemanticVector toks) \<and> (toks \<noteq> [] \<longrightarrow> getSemanticVector toks \<noteq> [])"
proof -
  let ?vec = "foldl addToken [] toks"
  have p: "positiveVec ?vec" and ne: "toks \<noteq> [] \<longrightarrow> ?vec \<noteq> []"
    using positiveVec_fold [of "[]" toks] by (simp_all add: positiveVec_def)
  have "positiveVec (map (\<lambda>(k, v). (k, v / sqrt (\<Sum>(k, v)\<leftarrow>?vec. v * v))) ?vec)"
    if "sqrt (\<Sum>(k, v)\<leftarrow>?vec. v * v) > 0"
    using p that unfolding positiveVec_def list_all_iff by auto
  then show ?thesis using p ne by (simp add: getSemanticVector_def Let_def)
qed

lemma mapGet_positive:
  "positiveVec m \<Longrightarrow> k \<in> fst ` set m \<Longrightarrow> 0 < mapGet m k"
proof -
  assume p: "positiveVec m" and k: "k \<in> fst ` set m"
  then obtain v where v: "map_of m k = Some v" by (metis map_of_eq_None_iff not_Some_eq)
  then have "(k, v) \<in> set m" by (rule map_of_SomeD)
  then have "0 < v" using p unfolding positiveVec_def list_all_iff by auto
  then show ?thesis using v by (simp add: mapGet_def)
qed

lemma mapGet_nonneg: "positiveVec m \<Longrightarrow> 0 \<le> mapGet m k"
proof (cases "k \<in> fst ` set m")
  case True
  assume "positiveVec m"
  then show ?thesis using mapGet_positive [of m k] True by simp
next
  case False
  then have "map_of m k = None" by (simp add: map_of_eq_None_iff)
  then show ?thesis by (simp add: mapGet_def)
qed


lemma semanticVectorSimilarity_nonneg:
  assumes "positiveVec a" "positiveVec b"
  shows "0 \<le> semanticVectorSimilarity a b"
proof -
  let ?keys = "uniq (uniq (map fst a) @ uniq (map fst b))"
  have d: "0 \<le> (\<Sum>k\<leftarrow>?keys. mapGet a k * mapGet b k)"
    by (rule sum_list_nonneg) (auto simp add: mapGet_nonneg assms)
  have "0 \<le> sqrt (\<Sum>k\<leftarrow>?keys. mapGet a k * mapGet a k) * sqrt (\<Sum>k\<leftarrow>?keys. mapGet b k * mapGet b k)"
    by (intro mult_nonneg_nonneg real_sqrt_ge_zero sum_list_nonneg) auto
  then show ?thesis
    unfolding semanticVectorSimilarity_def Let_def using d by simp
qed


lemma jaccardSimilarity_nonneg: "0 \<le> jaccardSimilarity a b"
  by (simp add: jaccardSimilarity_card)

lemma domainSimilarity_range: "0 \<le> domainSimilarity a b"
  by (simp add: domainSimilarity_def Let_def)


lemma combineSimilarities_range:
  assumes "0 \<le> s" "0 \<le> j" "0 \<le> d" "0 \<le> c"
  shows "0 \<le> combineSimilarities s j d c \<and> combineSimilarities s j d c \<le> 1"
proof -
  have a: "0 \<le> s * (2 / 10) + j * (3 / 10) + d * (2 / 10) + c * (3 / 10)"
    using assms by (intro add_nonneg_nonneg mult_nonneg_nonneg) simp_all
  have b: "0 \<le> s * (4 / 10) + j * (3 / 10) + d * (2 / 10) + c * (1 / 10)"
    using assms by (intro add_nonneg_nonneg mult_nonneg_nonneg) simp_all
  show ?thesis
    unfolding combineSimilarities_def Let_def using a b by (auto simp add: min_def)
qed

lemma features_positive: "positiveVec (semanticVector (extractFeatures parse item))"
  using getSemanticVector_positive
  by (auto simp add: extractFeatures_def Let_def positiveVec_def split: option.splits)


section \<open>Similarity combiner\<close>

lemma companySimilarity_nonneg: "0 \<le> companySimilarity a b"
  by (simp add: companySimilarity_def)

lemma similarityScore_range:
  "0 \<le> similarityScore parse a b \<and> similarityScore parse a b \<le> 1"
  unfolding similarityScore_def Let_def
  by (intro combineSimilarities_range semanticVectorSimilarity_nonneg features_positive
        jaccardSimilarity_nonneg domainSimilarity_range companySimilarity_nonneg)

lemma claude_docs_company: "companySimilarity ''claude.ai'' ''docs.anthropic.com'' = 1"
  by (simp add: companySimilarity_def companies_def inCompany_def)

lemma claude_docs_domain: "domainSimilarity ''claude.ai'' ''docs.anthropic.com'' = 0"
  by (simp add: domainSimilarity_def Let_def)

text \<open>
  C2. The score of a pair is the cap at 1 of a weighted sum of the four signals: weights
  0.2/0.3/0.2/0.3 plus 0.4 when \<open>domainRelation \<ge> 0.6\<close> plus 0.3 when
  \<open>companyRelation \<ge> 0.9\<close> if one of these two holds, weights 0.4/0.3/0.2/0.1
  otherwise; it lies in \<open>[0, 1]\<close>. For the domains \<^verbatim>\<open>claude.ai\<close> and
  \<^verbatim>\<open>docs.anthropic.com\<close> the company relation is 1 and the domain relation 0, so the
  boosted branch applies whatever the token overlap, and the score is at least 0.6.
\<close>

theorem similarity_adaptive_weights:
  "(let fa = extractFeatures parse a; fb = extractFeatures parse b;
        sem = semanticVectorSimilarity (semanticVector fa) (semanticVector fb);
        jac = jaccardSimilarity (tokens fa) (tokens fb);
        dmn = domainSimilarity (fdomain fa) (fdomain fb);
        comp = companySimilarity (fdomain fa) (fdomain fb)
    in similarityScore parse a b
         = min 1 (if dmn \<ge> 6 / 10 \<or> comp \<ge> 9 / 10
                  then 2 / 10 * sem + 3 / 10 * jac + 2 / 10 * dmn + 3 / 10 * comp
                       + (if dmn \<ge> 6 / 10 then 4 / 10 else 0)
                       + (if comp \<ge> 9 / 10 then 3 / 10 else 0)
                  else 4 / 10 * sem + 3 / 10 * jac + 2 / 10 * dmn + 1 / 10 * comp)
     \<and> 0 \<le> similarityScore parse a b \<and> similarityScore parse a b \<le> 1
     \<and> (fdomain fa = ''claude.ai'' \<and> fdomain fb = ''docs.anthropic.com'' \<longrightarrow>
          comp = 1 \<and> dmn = 0
          \<and> similarityScore parse a b = min 1 (2 / 10 * sem + 3 / 10 * jac + 6 / 10)
          \<and> 6 / 10 \<le> similarityScore parse a b))
   \<and> companySimilarity ''claude.ai'' ''docs.anthropic.com'' = 1"
proof -
  let ?fa = "extractFeatures parse a" and ?fb = "extractFeatures parse b"
  let ?sem = "semanticVectorSimilarity (semanticVector ?fa) (semanticVector ?fb)"
  let ?jac = "jaccardSimilarity (tokens ?fa) (tokens ?fb)"
  let ?dmn = "domainSimilarity (fdomain ?fa) (fdomain ?fb)"
  let ?comp = "companySimilarity (fdomain ?fa) (fdomain ?fb)"
  have formula: "similarityScore parse a b
         = min 1 (if ?dmn \<ge> 6 / 10 \<or> ?comp \<ge> 9 / 10
                  then 2 / 10 * ?sem + 3 / 10 * ?jac + 2 / 10 * ?dmn + 3 / 10 * ?comp
                       + (if ?dmn \<ge> 6 / 10 then 4 / 10 else 0)
                       + (if ?comp \<ge> 9 / 10 then 3 / 10 else 0)
                  else 4 / 10 * ?sem + 3 / 10 * ?jac + 2 / 10 * ?dmn + 1 / 10 * ?comp)"
    by (simp add: similarityScore_def combineSimilarities_def Let_def min.commute mult.commute)
  have sem0: "0 \<le> ?sem" by (intro semanticVectorSimilarity_nonneg features_positive)
  have jac0: "0 \<le> ?jac" by (rule jaccardSimilarity_nonneg)
  have scen: "?comp = 1 \<and> ?dmn = 0
          \<and> similarityScore parse a b = min 1 (2 / 10 * ?sem + 3 / 10 * ?jac + 6 / 10)
          \<and> 6 / 10 \<le> similarityScore parse a b"
    if d: "fdomain ?fa = ''claude.ai'' \<and> fdomain ?fb = ''docs.anthropic.com''"
  proof -
    have c: "?comp = 1" and z: "?dmn = 0"
      using d claude_docs_company claude_docs_domain by simp_all
    have eq: "similarityScore parse a b = min 1 (2 / 10 * ?sem + 3 / 10 * ?jac + 6 / 10)"
      unfolding formula c z by simp
    have "0 \<le> 2 / 10 * ?sem + 3 / 10 * ?jac"
      using sem0 jac0 by (intro add_nonneg_nonneg mult_nonneg_nonneg) simp_all
    then have "6 / 10 \<le> min 1 (2 / 10 * ?sem + 3 / 10 * ?jac + 6 / 10)" by simp
    then show ?thesis using c z eq by simp
  qed
  show ?thesis
    unfolding Let_def
    using formula similarityScore_range [of parse a b] scen claude_docs_company by blast
qed

theorem similarity_adaptive_weights_witness:
  "(let a = \<lparr>url = ''https://claude.ai/chat'', title = '''', lastVisitTime = 0\<rparr>;
        b = \<lparr>url = ''https://docs.anthropic.com/'', title = '''', lastVisitTime = 60000\<rparr>;
        fa = extractFeatures exampleURLs a; fb = extractFeatures exampleURLs b
    in fdomain fa = ''claude.ai'' \<and> fdomain fb = ''docs.anthropic.com''
     \<and> tokens fa = [''chat'', ''claude''] \<and> tokens fb = [''docs'', ''anthropic'']
     \<and> jaccardSimilarity (tokens fa) (tokens fb) = 0
     \<and> companySimilarity (fdomain fa) (fdomain fb) = 1
     \<and> 6 / 10 \<le> similarityScore exampleURLs a b \<and> similarityScore exampleURLs a b \<le> 1)"
proof -
  let ?a = "\<lparr>url = ''https://claude.ai/chat'', title = '''', lastVisitTime = 0\<rparr>"
  let ?b = "\<lparr>url = ''https://docs.anthropic.com/'', title = '''', lastVisitTime = 60000\<rparr>"
  have da: "fdomain (extractFeatures exampleURLs ?a) = ''claude.ai''"
    by (simp add: extractFeatures_def exampleURLs_def Let_def)
  have db: "fdomain (extractFeatures exampleURLs ?b) = ''docs.anthropic.com''"
    by (simp add: extractFeatures_def exampleURLs_def Let_def)
  have ta: "tokens (extractFeatures exampleURLs ?a) = [''chat'', ''claude'']"
    by (simp add: extractFeatures_def exampleURLs_def Let_def tokenize_def matchWords_def
        toLowerCase_def toLowerChar_def isWordChar_def stopWords_def allDigits_def)
  have tb: "tokens (extractFeatures exampleURLs ?b) = [''docs'', ''anthropic'']"
    by (simp add: extractFeatures_def exampleURLs_def Let_def tokenize_def matchWords_def
        toLowerCase_def toLowerChar_def isWordChar_def stopWords_def allDigits_def)
  have j: "jaccardSimilarity [''chat'', ''claude''] [''docs'', ''anthropic''] = 0"
    by (simp add: jaccardSimilarity_def uniq_def Let_def)
  note T = similarity_adaptive_weights [of exampleURLs ?a ?b, unfolded Let_def]
  have r: "similarityScore exampleURLs ?a ?b \<le> 1" using T by blast
  have "fdomain (extractFeatures exampleURLs ?a) = ''claude.ai''
        \<and> fdomain (extractFeatures exampleURLs ?b) = ''docs.anthropic.com''
      \<longrightarrow> companySimilarity (fdomain (extractFeatures exampleURLs ?a))
                             (fdomain (extractFeatures exampleURLs ?b)) = 1
        \<and> 6 / 10 \<le> similarityScore exampleURLs ?a ?b"
    using T by blast
  then have sc: "companySimilarity (fdomain (extractFeatures exampleURLs ?a))
                             (fdomain (extractFeatures exampleURLs ?b)) = 1
        \<and> 6 / 10 \<le> similarityScore exampleURLs ?a ?b"
    using da db by blast
  show ?thesis
    unfolding Let_def using da db ta tb j r sc by simp
qed

section \<open>Symmetry and self-similarity\<close>







section \<open>Fallback when the similarity computation fails\<close>



lemma processHistoryData_returns:
  "\<exists>r. processHistoryData parse zone rel shift an historyItems = Inr r
     \<and> nodes r = foldl (addVisit parse) [] (sortedHistoryOf parse historyItems)
     \<and> links r = map snd (fst (foldl (transitionStep parse rel shift) ([], an)
                                 (consecutive (sortedHistoryOf parse historyItems))))
     \<and> analyzerAfter r = snd (foldl (transitionStep parse rel shift) ([], an)
                                 (consecutive (sortedHistoryOf parse historyItems)))
     \<and> temporal r = analyzeTemporalPatterns zone (map (toEvent parse) (sortedHistoryOf parse historyItems))
     \<and> detectInformationChains (map (toEvent parse) (sortedHistoryOf parse historyItems))
           = Inr (chainsFound r)
     \<and> analyzeFocusSessions (map (toEvent parse) (sortedHistoryOf parse historyItems))
           = Inr (sessionsFound r)"
proof -
  let ?evs = "map (toEvent parse) (sortedHistoryOf parse historyItems)"
  obtain cs where cs: "detectInformationChains ?evs = Inr cs"
    using chain_pass [of summarizeChain "sort_key time ?evs"] summarizeChain_ok
    by (auto simp add: detectInformationChains_def)
  obtain fs where fs: "analyzeFocusSessions ?evs = Inr fs"
    using focus_pass [of summarizeSession "sort_key time ?evs"] summarizeSession_ok
    by (auto simp add: analyzeFocusSessions_def)
  show ?thesis
    by (simp add: processHistoryData_def Let_def cs fs split_beta)
qed

lemma calculateBasicSimilarity_jaccard:
  "calculateBasicSimilarity parse a b =
     min 1 ((if last (splitOn CHR ''.'' (extractDomain parse (url a)))
                = last (splitOn CHR ''.'' (extractDomain parse (url b))) then 2 / 10 else 0)
            + jaccard (title a) (title b) * (8 / 10))"
  by (simp add: calculateBasicSimilarity_def jaccard_def Let_def)

lemma jaccard_range: "0 \<le> jaccard a b \<and> jaccard a b \<le> 1"
proof -
  let ?sa = "uniq (matchWords (toLowerCase a))" and ?sb = "uniq (matchWords (toLowerCase b))"
  have "length (filter (\<lambda>x. x \<in> set ?sb) ?sa) \<le> length ?sa" by simp
  also have "\<dots> = card (set ?sa)" by (simp add: uniq_length)
  also have "\<dots> \<le> card (set ?sa \<union> set ?sb)" by (intro card_mono) auto
  also have "\<dots> = length (uniq (?sa @ ?sb))" by (simp add: uniq_length)
  finally have "length (filter (\<lambda>x. x \<in> set ?sb) ?sa) \<le> length (uniq (?sa @ ?sb))" .
  then show ?thesis
    by (simp add: jaccard_def Let_def divide_le_eq_1)
qed

lemma calculateBasicSimilarity_range:
  "0 \<le> calculateBasicSimilarity parse a b \<and> calculateBasicSimilarity parse a b \<le> 1"
  using jaccard_range [of "title a" "title b"]
  by (simp add: calculateBasicSimilarity_jaccard)

lemma scoreTransition_unavailable:
  "scoreTransition parse rel shift None current nxt
     = ((fallbackClassify (calculateBasicSimilarity parse current nxt),
         calculateBasicSimilarity parse current nxt), None)"
  by (simp add: scoreTransition_def calculateLocalSimilarity_def Let_def)

lemma transitionStep_unavailable:
  "snd (transitionStep parse rel shift (conns, None) pair) = None"
  by (cases pair) (simp add: transitionStep_def Let_def scoreTransition_unavailable)

lemma transition_fold_unavailable:
  "snd (foldl (transitionStep parse rel shift) (conns, None) pairs) = None"
proof (induction pairs arbitrary: conns)
  case Nil
  then show ?case by simp
next
  case (Cons p pairs)
  obtain c' where "transitionStep parse rel shift (conns, None) p = (c', None)"
    using transitionStep_unavailable [of parse rel shift conns p]
    by (metis prod.collapse)
  then show ?case using Cons.IH by simp
qed

lemma classifyInline_within_30min:
  "timeDiff \<le> 30 * 60 * 1000 \<Longrightarrow> classifyInline rel shift timeDiff sim \<noteq> context_switch"
  by (simp add: classifyInline_def)

text \<open>
  C6, as the code has it. When the similarity computation throws (the analyzer is
  missing), the transition is still scored and labelled and the pipeline returns: the
  score is the basic similarity, 0.2 for an equal last domain label plus 0.8 times the
  Jaccard similarity of the title words, capped at 1; the label depends on that score
  alone: \<open>related\<close> from 0.7, \<open>topic_shift\<close> from 0.3, \<open>context_switch\<close> below. The
  elapsed time is not consulted.
\<close>

theorem similarity_failure_falls_back:
  "(let s = calculateBasicSimilarity parse current nxt
    in scoreTransition parse rel shift None current nxt = ((fallbackClassify s, s), None)
     \<and> s = min 1 ((if last (splitOn CHR ''.'' (extractDomain parse (url current)))
                       = last (splitOn CHR ''.'' (extractDomain parse (url nxt)))
                    then 2 / 10 else 0)
                   + jaccard (title current) (title nxt) * (8 / 10))
     \<and> 0 \<le> s \<and> s \<le> 1
     \<and> (fallbackClassify s = related \<longleftrightarrow> 7 / 10 \<le> s)
     \<and> (fallbackClassify s = topic_shift \<longleftrightarrow> 3 / 10 \<le> s \<and> s < 7 / 10)
     \<and> (fallbackClassify s = context_switch \<longleftrightarrow> s < 3 / 10))
   \<and> (\<exists>r. processHistoryData parse zone rel shift None historyItems = Inr r
          \<and> analyzerAfter r = None)"
proof -
  have A: "\<exists>r. processHistoryData parse zone rel shift None historyItems = Inr r
          \<and> analyzerAfter r = None"
    using processHistoryData_returns [of parse zone rel shift None historyItems]
    by (auto simp add: transition_fold_unavailable)
  have B: "(fallbackClassify s = related \<longleftrightarrow> 7 / 10 \<le> s)
     \<and> (fallbackClassify s = topic_shift \<longleftrightarrow> 3 / 10 \<le> s \<and> s < 7 / 10)
     \<and> (fallbackClassify s = context_switch \<longleftrightarrow> s < 3 / 10)" for s
    by (auto simp add: fallbackClassify_def)
  show ?thesis
    unfolding Let_def
    using A B scoreTransition_unavailable [of parse rel shift current nxt]
      calculateBasicSimilarity_jaccard [of parse current nxt]
      calculateBasicSimilarity_range [of parse current nxt]
    by blast
qed

text \<open>
  The claim as stated fails: the fallback labels do not follow the three-branch policy of
  the classifier, whatever the thresholds, because they ignore the time windows. Two
  visits two hours apart with equal titles on a.example and b.example are \<open>related\<close>
  (similarity 1), where the policy with the fallback thresholds says \<open>topic_shift\<close>; two
  visits one minute apart without common title words on claude.ai and docs.anthropic.com
  are a \<open>context_switch\<close> (similarity 0), which the policy never answers within 30
  minutes.
\<close>

theorem fallback_ignores_time_windows:
  "(let current = \<lparr>url = ''https://a.example/'', title = ''release notes'', lastVisitTime = 0\<rparr>;
        nxt = \<lparr>url = ''https://b.example/'', title = ''Release notes'',
               lastVisitTime = 2 * 60 * 60 * 1000\<rparr>
    in fst (scoreTransition exampleURLs (7 / 10) (3 / 10) None current nxt) = (related, 1)
     \<and> classifyInline (7 / 10) (3 / 10) (lastVisitTime nxt - lastVisitTime current) 1 = topic_shift)
   \<and> (let current = \<lparr>url = ''https://claude.ai/chat'', title = ''chat'', lastVisitTime = 0\<rparr>;
        nxt = \<lparr>url = ''https://docs.anthropic.com/'', title = ''welcome'', lastVisitTime = 60 * 1000\<rparr>
    in fst (scoreTransition exampleURLs (7 / 10) (3 / 10) None current nxt) = (context_switch, 0)
     \<and> classifyInline (7 / 10) (3 / 10) (lastVisitTime nxt - lastVisitTime current) 0 = topic_shift)"
proof -
  have s1: "calculateBasicSimilarity exampleURLs
              \<lparr>url = ''https://a.example/'', title = ''release notes'', lastVisitTime = 0\<rparr>
              \<lparr>url = ''https://b.example/'', title = ''Release notes'',
                lastVisitTime = 2 * 60 * 60 * 1000\<rparr> = 1"
    by code_simp
  have s2: "calculateBasicSimilarity exampleURLs
              \<lparr>url = ''https://claude.ai/chat'', title = ''chat'', lastVisitTime = 0\<rparr>
              \<lparr>url = ''https://docs.anthropic.com/'', title = ''welcome'',
                lastVisitTime = 60 * 1000\<rparr> = 0"
    by code_simp
  show ?thesis
    unfolding Let_def scoreTransition_unavailable s1 s2
    by (simp add: fallbackClassify_def classifyInline_def)
qed

section \<open>Transition edges\<close>




lemma count_snoc:
  "length (filter P (xs @ [x])) = length (filter P xs) + (if P x then 1 else 0)"
  by simp


















section \<open>Empty input\<close>

lemma peakHoursOf_zero: "peakHoursOf (replicate 24 0) = []"
  by (simp add: peakHoursOf_def Let_def filter_empty_conv)

lemma hourlyComplexityOf_zero: "hourlyComplexityOf (replicate 24 (0, 0)) = replicate 24 0"
  by (simp add: hourlyComplexityOf_def)

lemma toFixed_zero: "toFixed k 0 = 0"
  by (simp add: toFixed_def)

text \<open>
  C9. On the empty event list nothing throws and every part of the report is zero or
  empty: \<^verbatim>\<open>analyze\<close> of \<^verbatim>\<open>analysis.js\<close> returns no focus sessions, no chains, an
  all-zero hourly complexity, no peak hours, average session minutes 0 and diversity 0;
  \<^verbatim>\<open>processHistoryData\<close> returns no nodes, no transition edges, no sessions, no chains,
  an all-zero hourly activity, no peak hours and average session minutes 0; the fallback
  of \<^verbatim>\<open>popup.js\<close> returns no nodes and no edges.
\<close>

theorem empty_input_empty_report:
  "analyze parse zone []
     = Inr \<lparr>hourlyComplexity = replicate 24 0, peakHours = [], avgSessionMinutes = 0,
            focusSessions = [], chainSummaries = [], diversity = 0\<rparr>
   \<and> hourlyActivity (foldl (temporalStep zone) temporalInit []) = replicate 24 0
   \<and> (\<exists>r. processHistoryData parse zone rel shift an [] = Inr r
          \<and> nodes r = [] \<and> links r = [] \<and> sessionsFound r = [] \<and> chainsFound r = []
          \<and> taHourlyActivity (temporal r) = replicate 24 0
          \<and> taPeakHours (temporal r) = []
          \<and> taAvgSessionMinutes (temporal r) = 0)
   \<and> processHistoryDataFallback parse [] = ([], [])"
proof -
  have A: "analyze parse zone []
     = Inr \<lparr>hourlyComplexity = replicate 24 0, peakHours = [], avgSessionMinutes = 0,
            focusSessions = [], chainSummaries = [], diversity = 0\<rparr>"
    by (simp add: analyze_def Let_def temporalInit_def temporalFinish_def avgSessionLength_def
        peakHoursOf_zero hourlyComplexityOf_zero toFixed_zero entropyOf_def)
  have B: "hourlyActivity (foldl (temporalStep zone) temporalInit []) = replicate 24 0"
    by (simp add: temporalInit_def)
  have s: "sortedHistoryOf parse [] = []" by (simp add: sortedHistoryOf_def)
  have ta: "taHourlyActivity (analyzeTemporalPatterns zone []) = replicate 24 0
          \<and> taPeakHours (analyzeTemporalPatterns zone []) = []
          \<and> taAvgSessionMinutes (analyzeTemporalPatterns zone []) = 0"
    by (simp add: analyzeTemporalPatterns_def Let_def temporalInit_def temporalFinish_def
        avgSessionLength_def peakHoursOf_zero toFixed_zero)
  have dc: "detectInformationChains [] = Inr []" by (simp add: detectInformationChains_def)
  have fs: "analyzeFocusSessions [] = Inr []" by (simp add: analyzeFocusSessions_def)
  obtain r where r: "processHistoryData parse zone rel shift an [] = Inr r"
      "nodes r = foldl (addVisit parse) [] (sortedHistoryOf parse [])"
      "links r = map snd (fst (foldl (transitionStep parse rel shift) ([], an)
                                 (consecutive (sortedHistoryOf parse []))))"
      "temporal r = analyzeTemporalPatterns zone (map (toEvent parse) (sortedHistoryOf parse []))"
      "detectInformationChains (map (toEvent parse) (sortedHistoryOf parse [])) = Inr (chainsFound r)"
      "analyzeFocusSessions (map (toEvent parse) (sortedHistoryOf parse [])) = Inr (sessionsFound r)"
    using processHistoryData_returns [of parse zone rel shift an "[]"] by blast
  have C: "\<exists>r. processHistoryData parse zone rel shift an [] = Inr r
          \<and> nodes r = [] \<and> links r = [] \<and> sessionsFound r = [] \<and> chainsFound r = []
          \<and> taHourlyActivity (temporal r) = replicate 24 0
          \<and> taPeakHours (temporal r) = []
          \<and> taAvgSessionMinutes (temporal r) = 0"
    using r ta dc fs by (intro exI [of _ r]) (simp add: s consecutive_def)
  have D: "processHistoryDataFallback parse [] = ([], [])"
    by (simp add: processHistoryDataFallback_def Let_def s consecutive_def)
  show ?thesis using A B C D by (intro conjI)
qed


end
